theory Spec2Isabelle
  imports Complex_Main "HOL-Library.Word"
begin

section \<open>The Uptime Kuma client: connection factory and connection pool\<close>

text \<open>
  A shallow embedding of \<^verbatim>\<open>internal/client/client.go\<close> (\<^verbatim>\<open>New\<close>,
  \<^verbatim>\<open>newClientDirect\<close>, \<^verbatim>\<open>Client.Disconnect\<close>) and of
  \<^verbatim>\<open>internal/client/pool.go\<close> (\<^verbatim>\<open>Pool\<close> and its methods).

  The Go code acts on the outside world through four calls: \<^verbatim>\<open>kuma.New\<close>,
  \<^verbatim>\<open>(*kuma.Client).Disconnect\<close>, \<^verbatim>\<open>rand.Float64\<close> and \<^verbatim>\<open>time.Sleep\<close>;
  it reads \<^verbatim>\<open>os.Getenv\<close>. Every such call is an event appended to a trace, and what
  the calls answer is given by an environment record, so that a test double with any
  behaviour is a value of that record. The mutexes of \<^verbatim>\<open>Pool\<close> serialise the
  methods; each method is modelled as one atomic step. The diagnostic line printed before
  each sleep is not modelled.
\<close>

subsection \<open>Go values\<close>

text \<open>\<^verbatim>\<open>time.Duration\<close> counts nanoseconds.\<close>

type_synonym duration = int

definition Second :: duration where
  "Second = 1000000000"

text \<open>
  An \<^verbatim>\<open>error\<close> built by \<^verbatim>\<open>fmt.Errorf\<close>: its message, and the error it wraps
  when the format has a \<^verbatim>\<open>%w\<close> verb (what \<^verbatim>\<open>errors.Unwrap\<close> returns).
\<close>

datatype go_error = GoError (Error_msg: string) (Unwrap: "go_error option")

text \<open>What a Go function returns: a value, an error, or it panics.\<close>

datatype 'a result = Ok 'a | Err go_error | Panic string

text \<open>The verb \<^verbatim>\<open>%d\<close> on a non-negative integer.\<close>

definition digit_char :: "nat \<Rightarrow> char" where
  "digit_char d = ''0123456789'' ! d"

fun itoa :: "nat \<Rightarrow> string" where
  "itoa n = (if n < 10 then [digit_char n] else itoa (n div 10) @ [digit_char (n mod 10)])"

declare itoa.simps [simp del]

text \<open>The verbs \<^verbatim>\<open>%v\<close> and \<^verbatim>\<open>%w\<close> on an error value, which may be nil.\<close>

definition fmt_error :: "string \<Rightarrow> go_error option \<Rightarrow> string" where
  "fmt_error verb err = (case err of None \<Rightarrow> ''%!'' @ verb @ ''(<nil>)'' | Some e \<Rightarrow> Error_msg e)"

subsection \<open>Data\<close>

record Config =
  BaseURL :: string
  Username :: string
  Password :: string
  EnableConnectionPool :: bool

text \<open>A \<^verbatim>\<open>*kuma.Client\<close> is known by its identity only.\<close>

type_synonym kuma_ptr = nat

record Client =
  Kuma :: "kuma_ptr option"

text \<open>
  \<^verbatim>\<open>Pool.refs\<close> is a Go \<^verbatim>\<open>int\<close>: a signed machine integer whose arithmetic wraps
  around. It is modelled with the 64 bits it has on the 64-bit platforms (on a 32-bit
  platform every statement below holds with 31 in place of 63); \<open>sint\<close> reads its
  value. The pointers \<^verbatim>\<open>client\<close> and
  \<^verbatim>\<open>config\<close> are nil or point to a value; a \<^verbatim>\<open>*Config\<close> or \<^verbatim>\<open>*Client\<close>
  that a function receives is not nil and is modelled by the value it points to, which
  nothing in the package changes after it has been built.
\<close>

type_synonym go_int = "64 word"

record Pool =
  client :: "Client option"
  config :: "Config option"
  refs :: go_int

subsection \<open>The outside world\<close>

datatype event =
    EvConnect string string string
  | EvRand
  | EvSleep duration
  | EvDisconnect kuma_ptr

type_synonym world = "event list"

text \<open>
  \<^item> \<open>kuma_New\<close>: the answer \<^verbatim>\<open>(k, err)\<close> of \<^verbatim>\<open>kuma.New(ctx, url, user, pass)\<close>, given
    the arguments of the earlier calls;
  \<^item> \<open>kuma_Disconnect\<close>: the answer of \<^verbatim>\<open>k.Disconnect()\<close>, given the trace so far;
  \<^item> \<open>rand_Float64\<close>: the \<open>n\<close>-th number drawn from \<^verbatim>\<open>rand.Float64()\<close>;
  \<^item> \<open>Getenv\<close>: \<^verbatim>\<open>os.Getenv\<close>;
  \<^item> \<open>float64_out_of_range\<close>: the result of converting to \<^verbatim>\<open>int64\<close> a
    \<^verbatim>\<open>float64\<close> that \<^verbatim>\<open>int64\<close> cannot represent, which Go leaves to the
    implementation;
  \<^item> \<open>fused_multiply_add\<close>: whether the compiler turns \<^verbatim>\<open>x*y + z\<close> into one fused
    operation that rounds once, which Go allows and some platforms do.
\<close>

record env =
  kuma_New :: "(string \<times> string \<times> string) list \<Rightarrow> string \<Rightarrow> string \<Rightarrow> string
                 \<Rightarrow> kuma_ptr option \<times> go_error option"
  kuma_Disconnect :: "world \<Rightarrow> kuma_ptr \<Rightarrow> go_error option"
  rand_Float64 :: "nat \<Rightarrow> real"
  Getenv :: "string \<Rightarrow> string"
  float64_out_of_range :: "real \<Rightarrow> int"
  fused_multiply_add :: bool

fun connect_calls :: "world \<Rightarrow> (string \<times> string \<times> string) list" where
  "connect_calls [] = []"
| "connect_calls (EvConnect url user pass # w) = (url, user, pass) # connect_calls w"
| "connect_calls (_ # w) = connect_calls w"

fun rand_calls :: "world \<Rightarrow> nat" where
  "rand_calls [] = 0"
| "rand_calls (EvRand # w) = Suc (rand_calls w)"
| "rand_calls (_ # w) = rand_calls w"

fun sleeps :: "world \<Rightarrow> duration list" where
  "sleeps [] = []"
| "sleeps (EvSleep d # w) = d # sleeps w"
| "sleeps (_ # w) = sleeps w"

fun disconnect_calls :: "world \<Rightarrow> kuma_ptr list" where
  "disconnect_calls [] = []"
| "disconnect_calls (EvDisconnect k # w) = k # disconnect_calls w"
| "disconnect_calls (_ # w) = disconnect_calls w"

subsection \<open>client.go\<close>

text \<open>
  A \<^verbatim>\<open>float64\<close> is modelled by the real number it stands for. Each operation of the
  code on \<^verbatim>\<open>float64\<close> gives the exact result rounded to the nearest \<^verbatim>\<open>float64\<close>,
  a tie going to the even neighbour: \<open>float64_round\<close> rounds to a multiple of
  \<open>2 ^ (e - 52)\<close>, where \<open>2 ^ e\<close> is the power of two at or below the number and \<open>e\<close>
  is at least -1022 (below that the spacing stays the same). A result of size
  \<open>2 ^ 1024\<close> or more stands for an infinity; the only use the code makes of such a
  number is to convert it to an integer, and that conversion treats it as it treats
  every number outside \<^verbatim>\<open>int64\<close>.
\<close>

definition round_half_even :: "real \<Rightarrow> int" where
  "round_half_even q =
     (let f = \<lfloor>q\<rfloor>; d = q - of_int f
      in if d < 1 / 2 then f else if 1 / 2 < d then f + 1 else if even f then f else f + 1)"

definition float64_exponent :: "real \<Rightarrow> int" where
  "float64_exponent x = max \<lfloor>log 2 \<bar>x\<bar>\<rfloor> (- 1022)"

definition float64_round :: "real \<Rightarrow> real" where
  "float64_round x =
     (if x = 0 then 0
      else of_int (round_half_even (x / 2 powi (float64_exponent x - 52)))
           * 2 powi (float64_exponent x - 52))"

text \<open>
  The conversion \<^verbatim>\<open>time.Duration(x)\<close> of a \<^verbatim>\<open>float64\<close>: the fraction is dropped
  (rounding towards zero), and the result is left to the implementation when
  \<^verbatim>\<open>int64\<close> cannot hold it.
\<close>

definition float64_to_Duration :: "env \<Rightarrow> real \<Rightarrow> duration" where
  "float64_to_Duration T x =
     (let t = (if 0 \<le> x then \<lfloor>x\<rfloor> else \<lceil>x\<rceil>)
      in if - (2 ^ 63) \<le> t \<and> t < 2 ^ 63 then t else float64_out_of_range T x)"

text \<open>
  Line 88, \<^verbatim>\<open>r := rand.Float64()*0.4 + 0.8\<close>, where \<open>u\<close> is the number that
  \<^verbatim>\<open>rand.Float64()\<close> returned. The constants are the \<^verbatim>\<open>float64\<close> nearest to 0.4 and
  0.8.
\<close>

definition jitter :: "env \<Rightarrow> real \<Rightarrow> real" where
  "jitter T u =
     (if fused_multiply_add T
      then float64_round (u * float64_round (4 / 10) + float64_round (8 / 10))
      else float64_round (float64_round (u * float64_round (4 / 10)) + float64_round (8 / 10)))"

text \<open>
  Lines 84 to 94 of the loop body: the sleep after the failed attempt \<open>i\<close>.
  \<^verbatim>\<open>math.Pow(2, float64(i))\<close> is the power of two itself up to \<open>i = 1023\<close> and the
  positive infinity beyond; a product with an infinity is an infinity or not a number,
  and its conversion is left to the implementation.
\<close>

definition sleepDuration :: "env \<Rightarrow> duration \<Rightarrow> nat \<Rightarrow> real \<Rightarrow> duration" where
  "sleepDuration T baseDelay i u =
     (let backoff = float64_round (float64_round (real_of_int baseDelay) * 2 ^ i);
          r = jitter T u;
          x = float64_round (backoff * r);
          d = (if 1023 < i then float64_out_of_range T x else float64_to_Duration T x)
      in if d > 30 * Second then 30 * Second else d)"

text \<open>The final \<^verbatim>\<open>return\<close> of \<^verbatim>\<open>newClientDirect\<close> (line 100).\<close>

definition exhausted :: "nat \<Rightarrow> go_error option \<Rightarrow> go_error" where
  "exhausted maxRetries err =
     GoError (''failed to connect to Uptime Kuma after '' @ itoa (maxRetries + 1)
              @ '' attempts: '' @ fmt_error ''w'' err) err"

text \<open>
  The \<^verbatim>\<open>for\<close> loop of \<^verbatim>\<open>newClientDirect\<close> with the statement after it, from
  the loop variable \<open>i\<close> and the current value \<open>err\<close> of the variable \<^verbatim>\<open>err\<close>. The two
  local constants \<^verbatim>\<open>maxRetries\<close> and \<^verbatim>\<open>baseDelay\<close> are parameters.
\<close>

function connect_loop ::
  "env \<Rightarrow> nat \<Rightarrow> duration \<Rightarrow> Config \<Rightarrow> nat \<Rightarrow> go_error option \<Rightarrow> world \<Rightarrow> Client result \<times> world"
where
  "connect_loop T maxRetries baseDelay cfg i err w =
     (if i \<le> maxRetries then
        (case kuma_New T (connect_calls w) (BaseURL cfg) (Username cfg) (Password cfg) of
           (k, None) \<Rightarrow>
             (Ok \<lparr>Kuma = k\<rparr>, w @ [EvConnect (BaseURL cfg) (Username cfg) (Password cfg)])
         | (k, Some e) \<Rightarrow>
             if i = maxRetries then
               (Err (exhausted maxRetries (Some e)),
                w @ [EvConnect (BaseURL cfg) (Username cfg) (Password cfg)])
             else
               connect_loop T maxRetries baseDelay cfg (i + 1) (Some e)
                 (w @ [EvConnect (BaseURL cfg) (Username cfg) (Password cfg),
                       EvRand,
                       EvSleep (sleepDuration T baseDelay i (rand_Float64 T (rand_calls w)))]))
      else (Err (exhausted maxRetries err), w))"
  by pat_completeness auto
termination
  by (relation "measure (\<lambda>(T, maxRetries, baseDelay, cfg, i, err, w). Suc maxRetries - i)") auto

declare connect_loop.simps [simp del]

text \<open>
  The body of \<^verbatim>\<open>newClientDirect\<close> for given values of its two local constants, and
  \<^verbatim>\<open>newClientDirect\<close> itself, where they are 5 and five seconds.
\<close>

definition newClientDirect_with ::
  "env \<Rightarrow> nat \<Rightarrow> duration \<Rightarrow> Config \<Rightarrow> world \<Rightarrow> Client result \<times> world"
where
  "newClientDirect_with T maxRetries baseDelay cfg w =
     connect_loop T maxRetries baseDelay cfg 0 None w"

definition newClientDirect :: "env \<Rightarrow> Config \<Rightarrow> world \<Rightarrow> Client result \<times> world" where
  "newClientDirect T cfg w = newClientDirect_with T 5 (5 * Second) cfg w"

definition Disconnect :: "env \<Rightarrow> Client \<Rightarrow> world \<Rightarrow> go_error option \<times> world" where
  "Disconnect T c w =
     (case Kuma c of
        Some k \<Rightarrow> (kuma_Disconnect T w k, w @ [EvDisconnect k])
      | None \<Rightarrow> (None, w))"

subsection \<open>pool.go\<close>

definition configMatches :: "Pool \<Rightarrow> Config \<Rightarrow> bool" where
  "configMatches p cfg =
     (case config p of
        None \<Rightarrow> False
      | Some pc \<Rightarrow> BaseURL pc = BaseURL cfg \<and> Username pc = Username cfg
                  \<and> Password pc = Password cfg)"

text \<open>
  In the mismatch branch the message reads \<^verbatim>\<open>p.config.BaseURL\<close>, which panics when
  \<^verbatim>\<open>p.config\<close> is nil.
\<close>

definition GetOrCreate :: "env \<Rightarrow> Pool \<Rightarrow> Config \<Rightarrow> world \<Rightarrow> Client result \<times> Pool \<times> world" where
  "GetOrCreate T p cfg w =
     (case client p of
        Some c \<Rightarrow>
          if \<not> configMatches p cfg then
            (case config p of
               None \<Rightarrow> (Panic ''invalid memory address or nil pointer dereference'', p, w)
             | Some pc \<Rightarrow>
                 (Err (GoError (''connection pool config mismatch: existing connection uses different credentials (URL: ''
                                @ BaseURL pc @ '' vs '' @ BaseURL cfg @ '')'') None), p, w))
          else (Ok c, p\<lparr>refs := refs p + 1\<rparr>, w)
      | None \<Rightarrow>
          (case newClientDirect T cfg w of
             (Ok c, w') \<Rightarrow> (Ok c, p\<lparr>client := Some c, config := Some cfg, refs := 1\<rparr>, w')
           | (Err e, w') \<Rightarrow>
               (Err (GoError (''failed to create pooled connection: '' @ fmt_error ''w'' (Some e))
                             (Some e)), p, w')
           | (Panic s, w') \<Rightarrow> (Panic s, p, w')))"

definition Release :: "Pool \<Rightarrow> world \<Rightarrow> Pool \<times> world" where
  "Release p w = (if sint (refs p) > 0 then (p\<lparr>refs := refs p - 1\<rparr>, w) else (p, w))"

definition Close :: "env \<Rightarrow> Pool \<Rightarrow> world \<Rightarrow> go_error option \<times> Pool \<times> world" where
  "Close T p w =
     (case client p of
        Some c \<Rightarrow>
          (case Disconnect T c w of
             (err, w') \<Rightarrow> (err, p\<lparr>client := None, config := None, refs := 0\<rparr>, w'))
      | None \<Rightarrow> (None, p, w))"

text \<open>
  The package variable \<^verbatim>\<open>globalPool\<close> is nil until \<^verbatim>\<open>GetGlobalPool\<close> first
  runs; \<^verbatim>\<open>&Pool{}\<close> is the pool with every field zero.
\<close>

definition new_Pool :: Pool where
  "new_Pool = \<lparr>client = None, config = None, refs = 0\<rparr>"

definition GetGlobalPool :: "Pool option \<Rightarrow> Pool" where
  "GetGlobalPool g = (case g of None \<Rightarrow> new_Pool | Some p \<Rightarrow> p)"

definition CloseGlobalPool :: "env \<Rightarrow> Pool option \<Rightarrow> world \<Rightarrow> go_error option \<times> Pool option \<times> world" where
  "CloseGlobalPool T g w =
     (case g of
        Some p \<Rightarrow> (case Close T p w of (err, p', w') \<Rightarrow> (err, Some p', w'))
      | None \<Rightarrow> (None, None, w))"

subsection \<open>client.go: the entry point\<close>

definition New :: "env \<Rightarrow> Config \<Rightarrow> Pool option \<Rightarrow> world \<Rightarrow> Client result \<times> Pool option \<times> world" where
  "New T cfg g w =
     (if BaseURL cfg = [] then (Err (GoError ''base URL is required'' None), g, w)
      else
        let poolEnabled = EnableConnectionPool cfg;
            poolEnabled = (if \<not> poolEnabled
                           then Getenv T ''UPTIMEKUMA_ENABLE_CONNECTION_POOL'' = ''true''
                           else poolEnabled)
        in if poolEnabled then
             (case GetOrCreate T (GetGlobalPool g) cfg w of
                (r, p', w') \<Rightarrow> (r, Some p', w'))
           else
             (case newClientDirect T cfg w of (r, w') \<Rightarrow> (r, g, w')))"

subsection \<open>Traces and test doubles used to state the properties\<close>

text \<open>
  The events of \<open>k\<close> failed attempts in a row, each followed by a draw of
  \<^verbatim>\<open>rand.Float64()\<close> and a sleep, when the first of them is attempt \<open>i\<close> of the
  loop and \<open>r\<close> numbers have been drawn before.
\<close>

definition retry_events :: "env \<Rightarrow> duration \<Rightarrow> Config \<Rightarrow> nat \<Rightarrow> nat \<Rightarrow> nat \<Rightarrow> event list" where
  "retry_events T baseDelay cfg r i k =
     concat (map (\<lambda>j. [EvConnect (BaseURL cfg) (Username cfg) (Password cfg), EvRand,
                        EvSleep (sleepDuration T baseDelay (i + j) (rand_Float64 T (r + j)))])
                 [0..<k])"

text \<open>
  The calls a program can make on a \<^verbatim>\<open>Pool\<close>, and the state a sequence of such
  calls leads to. The fields of \<^verbatim>\<open>Pool\<close> are not exported, so every pool of a
  running program is \<^verbatim>\<open>&Pool{}\<close> after some sequence of calls.
\<close>

datatype pool_op = OpGetOrCreate Config | OpRelease | OpClose

fun pool_step :: "env \<Rightarrow> pool_op \<Rightarrow> Pool \<times> world \<Rightarrow> Pool \<times> world" where
  "pool_step T (OpGetOrCreate cfg) (p, w) = snd (GetOrCreate T p cfg w)"
| "pool_step T OpRelease (p, w) = Release p w"
| "pool_step T OpClose (p, w) = snd (Close T p w)"

fun pool_run :: "env \<Rightarrow> pool_op list \<Rightarrow> Pool \<times> world \<Rightarrow> Pool \<times> world" where
  "pool_run T [] s = s"
| "pool_run T (x # xs) s = pool_run T xs (pool_step T x s)"

text \<open>
  A test double: \<^verbatim>\<open>kuma.New\<close> fails while fewer than \<open>n\<close> calls came before and
  then hands out the number of earlier calls as a fresh handle, \<^verbatim>\<open>Disconnect\<close>
  succeeds, \<^verbatim>\<open>rand.Float64()\<close> always returns one half, the environment variable
  has the value \<open>v\<close>, and the platform is one that does not fuse operations.
\<close>

definition stub_env :: "nat \<Rightarrow> string \<Rightarrow> env" where
  "stub_env n v =
     \<lparr>kuma_New = (\<lambda>h url user pass.
                    if length h < n then (None, Some (GoError ''login: Too frequently'' None))
                    else (Some (length h), None)),
      kuma_Disconnect = (\<lambda>w k. None),
      rand_Float64 = (\<lambda>n. 1 / 2),
      Getenv = (\<lambda>name. if name = ''UPTIMEKUMA_ENABLE_CONNECTION_POOL'' then v else []),
      float64_out_of_range = (\<lambda>x. - (2 ^ 63)),
      fused_multiply_add = False\<rparr>"

definition example_config :: Config where
  "example_config =
     \<lparr>BaseURL = ''http://x'', Username = ''a'', Password = ''b'', EnableConnectionPool = False\<rparr>"

section \<open>Properties\<close>

subsection \<open>Traces\<close>

lemma connect_calls_append: "connect_calls (w @ v) = connect_calls w @ connect_calls v"
  by (induction w rule: connect_calls.induct) simp_all

lemma rand_calls_append: "rand_calls (w @ v) = rand_calls w + rand_calls v"
  by (induction w rule: rand_calls.induct) simp_all

lemma sleeps_append: "sleeps (w @ v) = sleeps w @ sleeps v"
  by (induction w rule: sleeps.induct) simp_all

lemma disconnect_calls_append: "disconnect_calls (w @ v) = disconnect_calls w @ disconnect_calls v"
  by (induction w rule: disconnect_calls.induct) simp_all

lemma retry_events_0: "retry_events T b cfg r i 0 = []"
  by (simp add: retry_events_def)

lemma retry_events_Suc:
  "retry_events T b cfg r i (Suc k) =
     [EvConnect (BaseURL cfg) (Username cfg) (Password cfg), EvRand,
      EvSleep (sleepDuration T b i (rand_Float64 T r))] @ retry_events T b cfg (Suc r) (Suc i) k"
proof -
  have "[0..<Suc k] = 0 # map Suc [0..<k]"
    by (simp add: upt_conv_Cons map_Suc_upt del: upt_Suc)
  then show ?thesis
    by (simp add: retry_events_def comp_def del: upt_Suc)
qed

lemma connect_calls_retry_events:
  "connect_calls (retry_events T b cfg r i k) = replicate k (BaseURL cfg, Username cfg, Password cfg)"
  by (induction k arbitrary: r i) (simp_all add: retry_events_0 retry_events_Suc)

lemma rand_calls_retry_events: "rand_calls (retry_events T b cfg r i k) = k"
  by (induction k arbitrary: r i) (simp_all add: retry_events_0 retry_events_Suc)

lemma sleeps_retry_events:
  "sleeps (retry_events T b cfg r i k) =
     map (\<lambda>j. sleepDuration T b (i + j) (rand_Float64 T (r + j))) [0..<k]"
  by (induction k) (simp_all add: retry_events_def sleeps_append)

lemma disconnect_calls_retry_events: "disconnect_calls (retry_events T b cfg r i k) = []"
  by (induction k) (simp_all add: retry_events_def disconnect_calls_append)

lemma connect_loop_err_irrelevant:
  "i \<le> N \<Longrightarrow> connect_loop T N b cfg i e w = connect_loop T N b cfg i e' w"
  by (subst connect_loop.simps, subst (2) connect_loop.simps) simp

lemma connect_loop_skip:
  assumes "i + k \<le> N"
    and "\<forall>j<k. snd (kuma_New T (connect_calls w @ replicate j (BaseURL cfg, Username cfg, Password cfg))
                   (BaseURL cfg) (Username cfg) (Password cfg)) \<noteq> None"
  shows "connect_loop T N b cfg i e w =
         connect_loop T N b cfg (i + k) e (w @ retry_events T b cfg (rand_calls w) i k)"
  using assms
proof (induction k arbitrary: i w)
  case 0
  then show ?case by (simp add: retry_events_0)
next
  case (Suc k)
  let ?a = "(BaseURL cfg, Username cfg, Password cfg)"
  let ?first = "[EvConnect (BaseURL cfg) (Username cfg) (Password cfg), EvRand,
                 EvSleep (sleepDuration T b i (rand_Float64 T (rand_calls w)))]"
  from Suc.prems(2) have "snd (kuma_New T (connect_calls w @ replicate 0 ?a)
                            (BaseURL cfg) (Username cfg) (Password cfg)) \<noteq> None"
    by blast
  then obtain k0 e0 where first:
    "kuma_New T (connect_calls w) (BaseURL cfg) (Username cfg) (Password cfg) = (k0, Some e0)"
    by (cases "kuma_New T (connect_calls w) (BaseURL cfg) (Username cfg) (Password cfg)") auto
  from Suc.prems(1) have i: "i \<le> N" "i \<noteq> N" "Suc i + k \<le> N" "Suc i \<le> N"
    by simp_all
  have "connect_loop T N b cfg i e w = connect_loop T N b cfg (Suc i) (Some e0) (w @ ?first)"
    using first i by (subst connect_loop.simps) simp
  also have "\<dots> = connect_loop T N b cfg (Suc i) e (w @ ?first)"
    using i by (rule_tac connect_loop_err_irrelevant) simp
  also have "\<dots> = connect_loop T N b cfg (Suc i + k) e
                     ((w @ ?first) @ retry_events T b cfg (rand_calls (w @ ?first)) (Suc i) k)"
  proof (rule Suc.IH [OF i(3)])
    show "\<forall>j<k. snd (kuma_New T (connect_calls (w @ ?first) @ replicate j ?a)
                   (BaseURL cfg) (Username cfg) (Password cfg)) \<noteq> None"
    proof (intro allI impI)
      fix j assume "j < k"
      then have "Suc j < Suc k" by simp
      with Suc.prems(2) have "snd (kuma_New T (connect_calls w @ replicate (Suc j) ?a)
                   (BaseURL cfg) (Username cfg) (Password cfg)) \<noteq> None"
        by blast
      then show "snd (kuma_New T (connect_calls (w @ ?first) @ replicate j ?a)
                   (BaseURL cfg) (Username cfg) (Password cfg)) \<noteq> None"
        by (simp add: connect_calls_append)
    qed
  qed
  finally show ?case
    by (simp add: retry_events_Suc rand_calls_append)
qed


lemma connect_loop_success_step:
  assumes "i \<le> N"
    and "kuma_New T (connect_calls w) (BaseURL cfg) (Username cfg) (Password cfg) = (kp, None)"
  shows "connect_loop T N b cfg i e w =
         (Ok \<lparr>Kuma = kp\<rparr>, w @ [EvConnect (BaseURL cfg) (Username cfg) (Password cfg)])"
  using assms by (subst connect_loop.simps) simp

lemma connect_loop_last_failure:
  assumes "kuma_New T (connect_calls w) (BaseURL cfg) (Username cfg) (Password cfg) = (k0, Some e0)"
  shows "connect_loop T N b cfg N e w =
         (Err (exhausted N (Some e0)), w @ [EvConnect (BaseURL cfg) (Username cfg) (Password cfg)])"
  using assms by (subst connect_loop.simps) simp

lemma newClientDirect_with_success:
  assumes "k \<le> N"
    and "\<forall>j<k. snd (kuma_New T (connect_calls w @ replicate j (BaseURL cfg, Username cfg, Password cfg))
                   (BaseURL cfg) (Username cfg) (Password cfg)) \<noteq> None"
    and "kuma_New T (connect_calls w @ replicate k (BaseURL cfg, Username cfg, Password cfg))
           (BaseURL cfg) (Username cfg) (Password cfg) = (kp, None)"
  shows "newClientDirect_with T N b cfg w =
         (Ok \<lparr>Kuma = kp\<rparr>,
          w @ retry_events T b cfg (rand_calls w) 0 k
            @ [EvConnect (BaseURL cfg) (Username cfg) (Password cfg)])"
proof -
  let ?w = "w @ retry_events T b cfg (rand_calls w) 0 k"
  have "connect_loop T N b cfg 0 None w = connect_loop T N b cfg (0 + k) None ?w"
    using assms(1,2) by (intro connect_loop_skip) simp_all
  also have "\<dots> = (Ok \<lparr>Kuma = kp\<rparr>, ?w @ [EvConnect (BaseURL cfg) (Username cfg) (Password cfg)])"
    using assms(1,3)
    by (intro connect_loop_success_step) (simp_all add: connect_calls_append connect_calls_retry_events)
  finally show ?thesis
    by (simp add: newClientDirect_with_def)
qed

lemma newClientDirect_with_exhausted:
  assumes "\<forall>j<N. snd (kuma_New T (connect_calls w @ replicate j (BaseURL cfg, Username cfg, Password cfg))
                   (BaseURL cfg) (Username cfg) (Password cfg)) \<noteq> None"
    and "kuma_New T (connect_calls w @ replicate N (BaseURL cfg, Username cfg, Password cfg))
           (BaseURL cfg) (Username cfg) (Password cfg) = (k0, Some e0)"
  shows "newClientDirect_with T N b cfg w =
         (Err (exhausted N (Some e0)),
          w @ retry_events T b cfg (rand_calls w) 0 N
            @ [EvConnect (BaseURL cfg) (Username cfg) (Password cfg)])"
proof -
  let ?w = "w @ retry_events T b cfg (rand_calls w) 0 N"
  have "connect_loop T N b cfg 0 None w = connect_loop T N b cfg (0 + N) None ?w"
    using assms(1) by (intro connect_loop_skip) simp_all
  also have "\<dots> = (Err (exhausted N (Some e0)),
                    ?w @ [EvConnect (BaseURL cfg) (Username cfg) (Password cfg)])"
    using assms(2)
    by (simp add: connect_loop_last_failure connect_calls_append connect_calls_retry_events)
  finally show ?thesis
    by (simp add: newClientDirect_with_def)
qed

subsection \<open>Rounding to \<^verbatim>\<open>float64\<close>\<close>

lemma round_half_even_bounds: "\<lfloor>q\<rfloor> \<le> round_half_even q \<and> round_half_even q \<le> \<lfloor>q\<rfloor> + 1"
  by (simp add: round_half_even_def Let_def)

lemma round_half_even_of_int: "round_half_even (of_int n) = n"
  by (simp add: round_half_even_def)

lemma round_half_even_le:
  assumes "q \<le> of_int n"
  shows "round_half_even q \<le> n"
proof (cases "q = of_int n")
  case True
  then show ?thesis by (simp add: round_half_even_of_int)
next
  case False
  with assms have "q < of_int n" by simp
  then have "\<lfloor>q\<rfloor> < n" by (simp add: floor_less_iff)
  with round_half_even_bounds [of q] show ?thesis by linarith
qed

lemma round_half_even_ge:
  assumes "of_int n \<le> q"
  shows "n \<le> round_half_even q"
proof -
  from assms have "n \<le> \<lfloor>q\<rfloor>" by (simp add: le_floor_iff)
  with round_half_even_bounds [of q] show ?thesis by linarith
qed

lemma round_half_even_mono:
  assumes "q1 \<le> q2"
  shows "round_half_even q1 \<le> round_half_even q2"
proof (cases "\<lfloor>q1\<rfloor> = \<lfloor>q2\<rfloor>")
  case True
  with assms show ?thesis
    by (auto simp: round_half_even_def Let_def)
next
  case False
  moreover from assms have "\<lfloor>q1\<rfloor> \<le> \<lfloor>q2\<rfloor>" by (rule floor_mono)
  ultimately have "\<lfloor>q1\<rfloor> + 1 \<le> \<lfloor>q2\<rfloor>" by simp
  with round_half_even_bounds [of q1] round_half_even_bounds [of q2] show ?thesis
    by linarith
qed

lemma two_powr_int: "(2::real) powr real_of_int k = 2 powi k"
  by (rule powr_real_of_int') simp_all

lemma floor_log2_bounds:
  assumes "0 < x"
  shows "2 powi \<lfloor>log 2 x\<rfloor> \<le> x" and "x < 2 powi (\<lfloor>log 2 x\<rfloor> + 1)"
proof -
  have "2 powr real_of_int \<lfloor>log 2 x\<rfloor> \<le> x \<and> x < 2 powr (real_of_int \<lfloor>log 2 x\<rfloor> + 1)"
    using floor_log_eq_powr_iff [of x 2 "\<lfloor>log 2 x\<rfloor>"] assms by simp
  moreover have "real_of_int \<lfloor>log 2 x\<rfloor> + 1 = real_of_int (\<lfloor>log 2 x\<rfloor> + 1)" by simp
  ultimately show "2 powi \<lfloor>log 2 x\<rfloor> \<le> x" and "x < 2 powi (\<lfloor>log 2 x\<rfloor> + 1)"
    by (simp_all only: two_powr_int)
qed

lemma floor_log2_eqI:
  assumes "0 < x" and "2 powi e \<le> x" and "x < 2 powi (e + 1)"
  shows "\<lfloor>log 2 x\<rfloor> = e"
proof -
  have "real_of_int e + 1 = real_of_int (e + 1)" by simp
  then have "2 powr real_of_int e \<le> x \<and> x < 2 powr (real_of_int e + 1)"
    using assms(2,3) by (simp only: two_powr_int)
  then show ?thesis
    using floor_log_eq_powr_iff [of x 2 e] assms(1) by simp
qed

lemma float64_exponent_eqI:
  assumes "0 < x" and "2 powi e \<le> x" and "x < 2 powi (e + 1)" and "- 1022 \<le> e"
  shows "float64_exponent x = e"
  using floor_log2_eqI [OF assms(1-3)] assms(1,4) by (simp add: float64_exponent_def)

lemma float64_exponent_upper:
  assumes "0 < x"
  shows "x < 2 powi (float64_exponent x + 1)"
proof -
  have "\<lfloor>log 2 x\<rfloor> + 1 \<le> float64_exponent x + 1"
    using assms by (simp add: float64_exponent_def)
  then have "(2::real) powi (\<lfloor>log 2 x\<rfloor> + 1) \<le> 2 powi (float64_exponent x + 1)"
    by (intro power_int_increasing) simp_all
  with floor_log2_bounds(2) [OF assms] show ?thesis by linarith
qed

lemma float64_exponent_mono:
  assumes "0 < x" and "x \<le> y"
  shows "float64_exponent x \<le> float64_exponent y"
proof -
  from assms have "log 2 x \<le> log 2 y" by simp
  then have "\<lfloor>log 2 x\<rfloor> \<le> \<lfloor>log 2 y\<rfloor>" by (rule floor_mono)
  with assms show ?thesis by (simp add: float64_exponent_def)
qed

lemma float64_exponent_normal:
  assumes "0 < x" and "- 1022 < float64_exponent x"
  shows "2 powi float64_exponent x \<le> x"
proof -
  from assms have "float64_exponent x = \<lfloor>log 2 x\<rfloor>"
    by (simp add: float64_exponent_def max_def split: if_splits)
  with floor_log2_bounds(1) [OF assms(1)] show ?thesis by simp
qed


lemma float64_round_nonneg:
  assumes "0 \<le> x"
  shows "0 \<le> float64_round x"
proof (cases "x = 0")
  case True
  then show ?thesis by (simp add: float64_round_def)
next
  case False
  with assms have "0 \<le> x / 2 powi (float64_exponent x - 52)" by simp
  then have "0 \<le> round_half_even (x / 2 powi (float64_exponent x - 52))"
    using round_half_even_ge [of 0] by simp
  with False show ?thesis by (simp add: float64_round_def)
qed

lemma power_int_two_grid:
  assumes "g \<le> k"
  shows "(2::real) powi k = of_int (2 ^ nat (k - g)) * 2 powi g"
proof -
  have "(2::real) powi k = 2 powi ((k - g) + g)" by simp
  also have "\<dots> = 2 powi (k - g) * 2 powi g"
    by (rule power_int_add) simp
  also have "(2::real) powi (k - g) = 2 ^ nat (k - g)"
    using assms by (simp add: power_int_nonneg_exp)
  finally show ?thesis by simp
qed

text \<open>Rounding never crosses a number of the grid it rounds to.\<close>

lemma float64_round_le_grid:
  assumes "0 < x" and "x \<le> 2 powi k" and "float64_exponent x - 52 \<le> k"
  shows "float64_round x \<le> 2 powi k"
proof -
  let ?g = "(2::real) powi (float64_exponent x - 52)"
  let ?m = "nat (k - (float64_exponent x - 52))"
  have g: "0 < ?g" by simp
  have k: "(2::real) powi k = of_int (2 ^ ?m) * ?g"
    using assms(3) by (rule power_int_two_grid)
  from assms(2) g have "x / ?g \<le> of_int (2 ^ ?m)"
    unfolding k by (simp add: field_simps)
  then have "round_half_even (x / ?g) \<le> 2 ^ ?m"
    by (rule round_half_even_le)
  then have "of_int (round_half_even (x / ?g)) * ?g \<le> of_int (2 ^ ?m) * ?g"
    using g by (intro mult_right_mono) (simp_all add: of_int_le_iff [symmetric] del: of_int_le_iff)
  with assms(1) show ?thesis
    unfolding k by (simp add: float64_round_def)
qed

lemma float64_round_ge_grid:
  assumes "0 < x" and "2 powi k \<le> x" and "float64_exponent x - 52 \<le> k"
  shows "2 powi k \<le> float64_round x"
proof -
  let ?g = "(2::real) powi (float64_exponent x - 52)"
  let ?m = "nat (k - (float64_exponent x - 52))"
  have g: "0 < ?g" by simp
  have k: "(2::real) powi k = of_int (2 ^ ?m) * ?g"
    using assms(3) by (rule power_int_two_grid)
  from assms(2) g have "of_int (2 ^ ?m) \<le> x / ?g"
    unfolding k by (simp add: field_simps)
  then have "2 ^ ?m \<le> round_half_even (x / ?g)"
    by (rule round_half_even_ge)
  then have "of_int (2 ^ ?m) * ?g \<le> of_int (round_half_even (x / ?g)) * ?g"
    using g by (intro mult_right_mono) (simp_all add: of_int_le_iff [symmetric] del: of_int_le_iff)
  with assms(1) show ?thesis
    unfolding k by (simp add: float64_round_def)
qed

lemma float64_round_mono:
  assumes "0 \<le> x" and "x \<le> y"
  shows "float64_round x \<le> float64_round y"
proof (cases "x = 0")
  case True
  with assms float64_round_nonneg [of y] show ?thesis
    by (simp add: float64_round_def)
next
  case False
  with assms have x: "0 < x" and y: "0 < y" by simp_all
  have e: "float64_exponent x \<le> float64_exponent y"
    using x assms(2) by (rule float64_exponent_mono)
  show ?thesis
  proof (cases "float64_exponent x = float64_exponent y")
    case True
    let ?g = "(2::real) powi (float64_exponent y - 52)"
    have "x / ?g \<le> y / ?g"
      using assms(2) by (simp add: divide_right_mono)
    then have "round_half_even (x / ?g) \<le> round_half_even (y / ?g)"
      by (rule round_half_even_mono)
    then have "of_int (round_half_even (x / ?g)) * ?g \<le> of_int (round_half_even (y / ?g)) * ?g"
      by (intro mult_right_mono) simp_all
    with x y True show ?thesis
      by (simp add: float64_round_def)
  next
    case False
    with e have lt: "float64_exponent x + 1 \<le> float64_exponent y" by simp
    let ?k = "float64_exponent y"
    have "- 1022 \<le> float64_exponent x"
      by (simp add: float64_exponent_def)
    with lt have n: "- 1022 < ?k" by simp
    have "x < 2 powi (float64_exponent x + 1)"
      using x by (rule float64_exponent_upper)
    also have "\<dots> \<le> 2 powi ?k"
      using lt by (intro power_int_increasing) simp_all
    finally have "x \<le> 2 powi ?k" by simp
    then have "float64_round x \<le> 2 powi ?k"
      using x e by (intro float64_round_le_grid) simp_all
    also have "2 powi ?k \<le> float64_round y"
      using y n by (intro float64_round_ge_grid float64_exponent_normal) simp_all
    finally show ?thesis .
  qed
qed

text \<open>How to compute a rounding: name the power of two below the number.\<close>

lemma float64_round_eval:
  assumes "2 powi e \<le> x" and "x < 2 powi (e + 1)" and "- 1022 \<le> e"
  shows "float64_round x = of_int (round_half_even (x * 2 powi (52 - e))) / 2 powi (52 - e)"
proof -
  have "(0::real) < 2 powi e" by simp
  with assms(1) have x: "0 < x" by linarith
  then have e: "float64_exponent x = e"
    using assms by (intro float64_exponent_eqI)
  have "(2::real) powi (e - 52) = inverse (2 powi (52 - e))"
    using power_int_minus [of "2::real" "52 - e"] by simp
  with x e show ?thesis
    by (simp add: float64_round_def divide_inverse)
qed

lemma float64_round_power_of_two:
  assumes "- 1022 \<le> k"
  shows "float64_round (2 powi k) = 2 powi k"
proof -
  have "(2::real) powi k < 2 powi (k + 1)"
    by (intro power_int_strict_increasing) simp_all
  then have "float64_round (2 powi k)
        = of_int (round_half_even (2 powi k * 2 powi (52 - k))) / 2 powi (52 - k)"
    using assms by (intro float64_round_eval) simp_all
  moreover have "(2::real) powi k * 2 powi (52 - k) = of_int (2 ^ 52)"
    using power_int_add [of "2::real" k "52 - k"] by simp
  ultimately have "float64_round (2 powi k) = of_int (2 ^ 52) / 2 powi (52 - k)"
    by (simp only: round_half_even_of_int)
  also have "\<dots> = 2 powi 52 / 2 powi (52 - k)" by simp
  also have "\<dots> = 2 powi (52 - (52 - k))"
    by (rule power_int_diff [symmetric]) simp
  finally show ?thesis by simp
qed

lemma float64_round_power: "float64_round (2 ^ n) = 2 ^ n"
  using float64_round_power_of_two [of "int n"] by simp


lemma float64_round_on_grid:
  assumes "x / 2 powi (float64_exponent x - 52) = of_int n"
  shows "float64_round x = x"
proof (cases "x = 0")
  case True
  then show ?thesis by (simp add: float64_round_def)
next
  case False
  have "of_int n * 2 powi (float64_exponent x - 52) = x"
    using assms [symmetric] by simp
  with False show ?thesis
    by (simp add: float64_round_def assms round_half_even_of_int)
qed

text \<open>Every integer below \<open>2 ^ 53\<close> is a \<^verbatim>\<open>float64\<close>.\<close>

lemma float64_round_of_int:
  assumes "0 \<le> n" and "n < 2 ^ 53"
  shows "float64_round (of_int n) = of_int n"
proof (cases "n = 0")
  case True
  then show ?thesis by (simp add: float64_round_def)
next
  case False
  with assms have x: "0 < real_of_int n" and one: "1 \<le> real_of_int n" by simp_all
  let ?e = "float64_exponent (of_int n)"
  have "- 1022 \<le> ?e" by (simp add: float64_exponent_def)
  have "\<lfloor>log 2 (real_of_int n)\<rfloor> < 53"
  proof -
    have "real_of_int n < 2 powi 53"
      using assms(2) by (simp add: of_int_less_iff [symmetric] del: of_int_less_iff)
    moreover have "2 powi \<lfloor>log 2 (real_of_int n)\<rfloor> \<le> real_of_int n"
      using x by (rule floor_log2_bounds)
    ultimately have "(2::real) powi \<lfloor>log 2 (real_of_int n)\<rfloor> < 2 powi 53" by linarith
    then show ?thesis
      using power_int_le_imp_less_exp [of "2::real" "\<lfloor>log 2 (real_of_int n)\<rfloor>" 53]
      by (metis linorder_not_le one_less_numeral_iff power_int_increasing semiring_norm(76)
            less_eq_real_def)
  qed
  then have e: "?e \<le> 52"
    using x by (simp add: float64_exponent_def abs_of_pos)
  have "(2::real) powi (52 - ?e) = of_int (2 ^ nat (52 - ?e))"
    using e by (simp add: power_int_nonneg_exp)
  moreover have "(2::real) powi (?e - 52) = inverse (2 powi (52 - ?e))"
    using power_int_minus [of "2::real" "52 - ?e"] by simp
  ultimately have "real_of_int n / 2 powi (?e - 52) = of_int (n * 2 ^ nat (52 - ?e))"
    by (simp add: divide_inverse)
  then show ?thesis by (rule float64_round_on_grid)
qed

text \<open>The largest \<^verbatim>\<open>float64\<close> below 1 is \<open>1 - 1 / 2 ^ 53\<close>.\<close>

lemma float64_below_one:
  assumes "float64_round u = u" and "0 \<le> u" and "u < 1"
  shows "u \<le> 1 - 1 / 2 ^ 53"
proof (cases "u = 0")
  case True
  then show ?thesis by simp
next
  case False
  with assms have u: "0 < u" by simp
  let ?e = "float64_exponent u"
  have "log 2 u < 0" using u assms(3) by simp
  then have "\<lfloor>log 2 u\<rfloor> \<le> - 1" by (simp add: floor_le_iff)
  then have e: "?e \<le> - 1" using u by (simp add: float64_exponent_def abs_of_pos)
  show ?thesis
  proof (cases "?e = - 1")
    case True
    let ?n = "round_half_even (u / 2 powi (- 53))"
    have "float64_round u = of_int ?n * 2 powi (- 53)"
      unfolding float64_round_def using False True by simp
    also have "(2::real) powi (- 53) = 1 / 2 ^ 53"
      by (simp add: inverse_eq_divide)
    finally have un: "u = of_int ?n / 2 ^ 53"
      unfolding assms(1) by simp
    with assms(3) have "real_of_int ?n < 2 ^ 53" by (simp add: field_simps)
    then have "?n < 2 ^ 53"
      by (simp add: of_int_less_iff [symmetric] del: of_int_less_iff)
    then have "?n \<le> 2 ^ 53 - 1" by simp
    then have "real_of_int ?n \<le> 2 ^ 53 - 1"
      by (simp add: of_int_le_iff [symmetric] del: of_int_le_iff)
    then have "real_of_int ?n / 2 ^ 53 \<le> (2 ^ 53 - 1) / 2 ^ 53"
      by (intro divide_right_mono) simp_all
    with un show ?thesis by (simp add: field_simps)
  next
    case False
    with e have "?e + 1 \<le> - 1" by simp
    then have "(2::real) powi (?e + 1) \<le> 2 powi (- 1)"
      by (intro power_int_increasing) simp_all
    with float64_exponent_upper [OF u] have "u < 1 / 2" by simp
    then show ?thesis by simp
  qed
qed

subsection \<open>The two constants\<close>

lemma float64_04: "float64_round (4 / 10) = 3602879701896397 / 9007199254740992"
proof -
  have "float64_round (4 / 10)
        = of_int (round_half_even (4 / 10 * 2 powi (52 - (- 2)))) / 2 powi (52 - (- 2))"
    by (rule float64_round_eval) simp_all
  also have "round_half_even (4 / 10 * 2 powi (52 - (- 2))) = 7205759403792794"
    by (simp add: round_half_even_def Let_def)
  finally show ?thesis by simp
qed

lemma float64_08: "float64_round (8 / 10) = 3602879701896397 / 4503599627370496"
proof -
  have "float64_round (8 / 10)
        = of_int (round_half_even (8 / 10 * 2 powi (52 - (- 1)))) / 2 powi (52 - (- 1))"
    by (rule float64_round_eval) simp_all
  also have "round_half_even (8 / 10 * 2 powi (52 - (- 1))) = 7205759403792794"
    by (simp add: round_half_even_def Let_def)
  finally show ?thesis by simp
qed

lemma float64_08_fixed:
  "float64_round (3602879701896397 / 4503599627370496) = 3602879701896397 / 4503599627370496"
proof -
  have "float64_round (3602879701896397 / 4503599627370496)
        = of_int (round_half_even (3602879701896397 / 4503599627370496 * 2 powi (52 - (- 1))))
          / 2 powi (52 - (- 1))"
    by (rule float64_round_eval) simp_all
  also have "round_half_even (3602879701896397 / 4503599627370496 * 2 powi (52 - (- 1)))
             = 7205759403792794"
    by (simp add: round_half_even_def Let_def)
  finally show ?thesis by simp
qed

lemma jitter_top_product:
  "float64_round ((1 - 1 / 2 ^ 53) * (3602879701896397 / 9007199254740992))
     = 7205759403792793 / 18014398509481984"
proof -
  have "float64_round ((1 - 1 / 2 ^ 53) * (3602879701896397 / 9007199254740992))
        = of_int (round_half_even ((1 - 1 / 2 ^ 53) * (3602879701896397 / 9007199254740992)
                                   * 2 powi (52 - (- 2))))
          / 2 powi (52 - (- 2))"
    by (rule float64_round_eval) simp_all
  also have "round_half_even ((1 - 1 / 2 ^ 53) * (3602879701896397 / 9007199254740992)
                                   * 2 powi (52 - (- 2))) = 7205759403792793"
    by (simp add: round_half_even_def Let_def)
  finally show ?thesis by simp
qed

lemma jitter_top_sum:
  "float64_round (7205759403792793 / 18014398509481984 + 3602879701896397 / 4503599627370496)
     = 5404319552844595 / 4503599627370496"
proof -
  have "float64_round (7205759403792793 / 18014398509481984 + 3602879701896397 / 4503599627370496)
        = of_int (round_half_even ((7205759403792793 / 18014398509481984
                                    + 3602879701896397 / 4503599627370496) * 2 powi (52 - 0)))
          / 2 powi (52 - 0)"
    by (rule float64_round_eval) simp_all
  also have "round_half_even ((7205759403792793 / 18014398509481984
                                + 3602879701896397 / 4503599627370496) * 2 powi (52 - 0))
             = 5404319552844595"
    by (simp add: round_half_even_def Let_def)
  finally show ?thesis by simp
qed

lemma jitter_top_fused:
  "float64_round ((1 - 1 / 2 ^ 53) * (3602879701896397 / 9007199254740992)
                  + 3602879701896397 / 4503599627370496)
     = 5404319552844595 / 4503599627370496"
proof -
  have "float64_round ((1 - 1 / 2 ^ 53) * (3602879701896397 / 9007199254740992)
                  + 3602879701896397 / 4503599627370496)
        = of_int (round_half_even (((1 - 1 / 2 ^ 53) * (3602879701896397 / 9007199254740992)
                  + 3602879701896397 / 4503599627370496) * 2 powi (52 - 0)))
          / 2 powi (52 - 0)"
    by (rule float64_round_eval) simp_all
  also have "round_half_even (((1 - 1 / 2 ^ 53) * (3602879701896397 / 9007199254740992)
                  + 3602879701896397 / 4503599627370496) * 2 powi (52 - 0))
             = 5404319552844595"
    by (simp add: round_half_even_def Let_def)
  finally show ?thesis by simp
qed

lemma jitter_bounds:
  assumes "float64_round u = u" and "0 \<le> u" and "u < 1"
  shows "8 / 10 \<le> jitter T u \<and> jitter T u \<le> 12 / 10"
proof -
  let ?c4 = "3602879701896397 / 9007199254740992 :: real"
  let ?c8 = "3602879701896397 / 4503599627370496 :: real"
  let ?top = "5404319552844595 / 4503599627370496 :: real"
  have u: "u \<le> 1 - 1 / 2 ^ 53"
    using assms by (rule float64_below_one)
  have p0: "0 \<le> u * ?c4" using assms(2) by simp
  have p1: "u * ?c4 \<le> (1 - 1 / 2 ^ 53) * ?c4"
    using u by (intro mult_right_mono) simp_all
  have r0: "0 \<le> float64_round (u * ?c4)"
    using p0 by (rule float64_round_nonneg)
  have r1: "float64_round (u * ?c4) \<le> 7205759403792793 / 18014398509481984"
    using float64_round_mono [OF p0 p1] by (simp only: jitter_top_product)
  have lo: "?c8 \<le> float64_round (float64_round (u * ?c4) + ?c8)"
    using float64_round_mono [of ?c8 "float64_round (u * ?c4) + ?c8"] r0
    unfolding float64_08_fixed by simp
  have hi: "float64_round (float64_round (u * ?c4) + ?c8) \<le> ?top"
    using float64_round_mono
            [of "float64_round (u * ?c4) + ?c8"
                "7205759403792793 / 18014398509481984 + ?c8"] r0 r1
    unfolding jitter_top_sum by simp
  have lo': "?c8 \<le> float64_round (u * ?c4 + ?c8)"
    using float64_round_mono [of ?c8 "u * ?c4 + ?c8"] p0
    unfolding float64_08_fixed by simp
  have hi': "float64_round (u * ?c4 + ?c8) \<le> ?top"
    using float64_round_mono [of "u * ?c4 + ?c8" "(1 - 1 / 2 ^ 53) * ?c4 + ?c8"] p0 p1
    unfolding jitter_top_fused by simp
  have "8 / 10 \<le> ?c8" and "?top \<le> 12 / 10" by simp_all
  with lo hi lo' hi' show ?thesis
    unfolding jitter_def float64_04 float64_08 by auto
qed

text \<open>The draws used in the examples below.\<close>

lemma jitter_half: "jitter T (1 / 2) = 1"
proof -
  have a: "float64_round (1 / 2 * (3602879701896397 / 9007199254740992))
           = 3602879701896397 / 18014398509481984"
  proof -
    have "float64_round (1 / 2 * (3602879701896397 / 9007199254740992))
          = of_int (round_half_even (1 / 2 * (3602879701896397 / 9007199254740992)
                                     * 2 powi (52 - (- 3))))
            / 2 powi (52 - (- 3))"
      by (rule float64_round_eval) simp_all
    also have "round_half_even (1 / 2 * (3602879701896397 / 9007199254740992)
                                     * 2 powi (52 - (- 3))) = 7205759403792794"
      by (simp add: round_half_even_def Let_def)
    finally show ?thesis by simp
  qed
  have b: "float64_round (3602879701896397 / 18014398509481984
                          + 3602879701896397 / 4503599627370496) = 1"
  proof -
    have "float64_round (3602879701896397 / 18014398509481984
                          + 3602879701896397 / 4503599627370496)
          = of_int (round_half_even ((3602879701896397 / 18014398509481984
                          + 3602879701896397 / 4503599627370496) * 2 powi (52 - 0)))
            / 2 powi (52 - 0)"
      by (rule float64_round_eval) simp_all
    also have "round_half_even ((3602879701896397 / 18014398509481984
                          + 3602879701896397 / 4503599627370496) * 2 powi (52 - 0))
               = 4503599627370496"
      by (simp add: round_half_even_def Let_def)
    finally show ?thesis by simp
  qed
  have c: "float64_round (1 / 2 * (3602879701896397 / 9007199254740992)
                          + 3602879701896397 / 4503599627370496) = 1"
  proof -
    have "float64_round (1 / 2 * (3602879701896397 / 9007199254740992)
                          + 3602879701896397 / 4503599627370496)
          = of_int (round_half_even ((1 / 2 * (3602879701896397 / 9007199254740992)
                          + 3602879701896397 / 4503599627370496) * 2 powi (52 - 0)))
            / 2 powi (52 - 0)"
      by (rule float64_round_eval) simp_all
    also have "round_half_even ((1 / 2 * (3602879701896397 / 9007199254740992)
                          + 3602879701896397 / 4503599627370496) * 2 powi (52 - 0))
               = 4503599627370496"
      by (simp add: round_half_even_def Let_def)
    finally show ?thesis by simp
  qed
  show ?thesis
    unfolding jitter_def float64_04 float64_08 a by (simp only: b c if_cancel)
qed

lemma jitter_quarter:
  assumes "\<not> fused_multiply_add T"
  shows "jitter T (1 / 4) = 8106479329266893 / 9007199254740992"
proof -
  have a: "float64_round (1 / 4 * (3602879701896397 / 9007199254740992))
           = 3602879701896397 / 36028797018963968"
  proof -
    have "float64_round (1 / 4 * (3602879701896397 / 9007199254740992))
          = of_int (round_half_even (1 / 4 * (3602879701896397 / 9007199254740992)
                                     * 2 powi (52 - (- 4))))
            / 2 powi (52 - (- 4))"
      by (rule float64_round_eval) simp_all
    also have "round_half_even (1 / 4 * (3602879701896397 / 9007199254740992)
                                     * 2 powi (52 - (- 4))) = 7205759403792794"
      by (simp add: round_half_even_def Let_def)
    finally show ?thesis by simp
  qed
  have b: "float64_round (3602879701896397 / 36028797018963968
                          + 3602879701896397 / 4503599627370496)
           = 8106479329266893 / 9007199254740992"
  proof -
    have "float64_round (3602879701896397 / 36028797018963968
                          + 3602879701896397 / 4503599627370496)
          = of_int (round_half_even ((3602879701896397 / 36028797018963968
                          + 3602879701896397 / 4503599627370496) * 2 powi (52 - (- 1))))
            / 2 powi (52 - (- 1))"
      by (rule float64_round_eval) simp_all
    also have "round_half_even ((3602879701896397 / 36028797018963968
                          + 3602879701896397 / 4503599627370496) * 2 powi (52 - (- 1)))
               = 8106479329266893"
      by (simp add: round_half_even_def Let_def)
    finally show ?thesis by simp
  qed
  show ?thesis
    unfolding jitter_def float64_04 float64_08 a using assms by (simp only: b if_False)
qed

text \<open>
  The largest draw: the jitter is the \<^verbatim>\<open>float64\<close> that Go writes \<^verbatim>\<open>1.2\<close>, and the
  product with five seconds rounds up to six seconds.
\<close>

lemma jitter_largest_draw:
  assumes "\<not> fused_multiply_add T"
  shows "jitter T (1 - 1 / 2 ^ 53) = 5404319552844595 / 4503599627370496"
  unfolding jitter_def float64_04 float64_08 jitter_top_product
  using assms by (simp only: jitter_top_sum if_False)

subsection \<open>The sleep\<close>

lemma sleepDuration_unfold:
  "sleepDuration T b i u =
     min (30 * Second)
       (if 1023 < i
        then float64_out_of_range T
               (float64_round (float64_round (float64_round (real_of_int b) * 2 ^ i)
                  * (if fused_multiply_add T
                     then float64_round (u * float64_round (4 / 10) + float64_round (8 / 10))
                     else float64_round (float64_round (u * float64_round (4 / 10))
                                         + float64_round (8 / 10)))))
        else float64_to_Duration T
               (float64_round (float64_round (float64_round (real_of_int b) * 2 ^ i)
                  * (if fused_multiply_add T
                     then float64_round (u * float64_round (4 / 10) + float64_round (8 / 10))
                     else float64_round (float64_round (u * float64_round (4 / 10))
                                         + float64_round (8 / 10))))))"
  by (simp add: sleepDuration_def jitter_def Let_def min_def)

lemma float64_to_Duration_in_range:
  assumes "0 \<le> x" and "x < 2 ^ 63"
  shows "float64_to_Duration T x = \<lfloor>x\<rfloor>"
proof -
  have "0 \<le> \<lfloor>x\<rfloor>" using assms(1) by simp
  moreover have "\<lfloor>x\<rfloor> < 2 ^ 63"
    using assms(2) by (simp add: floor_less_iff)
  ultimately show ?thesis
    using assms(1) by (simp add: float64_to_Duration_def Let_def)
qed

text \<open>
  While \<open>baseDelay * 2 ^ i\<close> is below \<open>2 ^ 53\<close> the backoff is exact, the one rounding
  is that of its product with the jitter, and the conversion only drops the fraction.
\<close>

lemma backoff_exact:
  assumes "0 \<le> b" and "real_of_int b * 2 ^ i < 2 ^ 53"
  shows "float64_round (float64_round (real_of_int b) * 2 ^ i) = real_of_int b * 2 ^ i"
proof -
  have "real_of_int b * 1 \<le> real_of_int b * 2 ^ i"
    using assms(1) by (intro mult_left_mono) simp_all
  with assms(2) have "real_of_int b < 2 ^ 53" by simp
  then have b: "b < 2 ^ 53"
    by (simp add: of_int_less_iff [symmetric] del: of_int_less_iff)
  have "real_of_int (b * 2 ^ i) < real_of_int (2 ^ 53)" using assms(2) by simp
  then have bi: "b * 2 ^ i < 2 ^ 53"
    by (simp only: of_int_less_iff)
  have "float64_round (real_of_int (b * 2 ^ i)) = real_of_int (b * 2 ^ i)"
    using assms(1) bi by (intro float64_round_of_int) simp_all
  then show ?thesis
    using float64_round_of_int [OF assms(1) b] by simp
qed

lemma sleep_in_range:
  assumes "0 \<le> b" and "real_of_int b * 2 ^ i < 2 ^ 53" and "8 / 10 \<le> r" and "r \<le> 12 / 10"
  shows "float64_to_Duration T (float64_round (real_of_int b * 2 ^ i * r))
         = \<lfloor>float64_round (real_of_int b * 2 ^ i * r)\<rfloor>"
proof -
  let ?B = "real_of_int b * 2 ^ i"
  have B: "0 \<le> ?B" using assms(1) by simp
  have nonneg: "0 \<le> ?B * r" using B assms(3) by simp
  have "?B * r \<le> 2 ^ 53 * (12 / 10)"
    using B assms(2,3,4) by (intro mult_mono) simp_all
  also have "\<dots> \<le> (2::real) ^ 54" by simp
  finally have "float64_round (?B * r) \<le> float64_round (2 ^ 54)"
    using nonneg by (intro float64_round_mono)
  then have "float64_round (?B * r) < 2 ^ 63"
    by (simp only: float64_round_power) simp
  moreover have "0 \<le> float64_round (?B * r)"
    using nonneg by (rule float64_round_nonneg)
  ultimately show ?thesis by (intro float64_to_Duration_in_range)
qed

lemma sleepDuration_in_range:
  assumes "float64_round u = u" and "0 \<le> u" and "u < 1"
    and "0 \<le> b" and "i \<le> 1023" and "real_of_int b * 2 ^ i < 2 ^ 53"
  shows "sleepDuration T b i u
         = min (30 * Second) \<lfloor>float64_round (real_of_int b * 2 ^ i * jitter T u)\<rfloor>"
proof -
  have "8 / 10 \<le> jitter T u \<and> jitter T u \<le> 12 / 10"
    using assms(1-3) by (rule jitter_bounds)
  then have "float64_to_Duration T (float64_round (real_of_int b * 2 ^ i * jitter T u))
         = \<lfloor>float64_round (real_of_int b * 2 ^ i * jitter T u)\<rfloor>"
    using assms(4,6) by (intro sleep_in_range) simp_all
  then show ?thesis
    using assms(5) by (simp add: sleepDuration_def Let_def min_def backoff_exact [OF assms(4,6)])
qed

text \<open>
  With the constants of \<^verbatim>\<open>newClientDirect\<close> every product stays far inside
  \<^verbatim>\<open>int64\<close>, so its sleeps never depend on the implementation.
\<close>

lemma newClientDirect_sleep_in_range:
  assumes "i < 5" and "float64_round u = u" and "0 \<le> u" and "u < 1"
  shows "sleepDuration T (5 * Second) i u
         = min (30 * Second) \<lfloor>float64_round (real_of_int (5 * Second) * 2 ^ i * jitter T u)\<rfloor>"
proof -
  have "(2::real) ^ i \<le> 2 ^ 5"
    using assms(1) by (intro power_increasing) simp_all
  then have "real_of_int (5 * Second) * 2 ^ i < 2 ^ 53"
    by (simp add: Second_def)
  moreover have "0 \<le> 5 * Second"
    by (simp add: Second_def)
  ultimately show ?thesis
    using assms by (intro sleepDuration_in_range) simp_all
qed

lemma sleepDuration_half:
  assumes "i < 5"
  shows "sleepDuration T (5 * Second) i (1 / 2) = min (30 * Second) (5 * Second * 2 ^ i)"
proof -
  have "(2::real) ^ i \<le> 2 ^ 5"
    using assms by (intro power_increasing) simp_all
  then have r: "real_of_int (5 * Second) * 2 ^ i < 2 ^ 53"
    by (simp add: Second_def)
  have p: "0 \<le> 5 * Second" by (simp add: Second_def)
  have "real_of_int (5 * Second * 2 ^ i) < real_of_int (2 ^ 53)" using r by simp
  then have "5 * Second * 2 ^ i < 2 ^ 53"
    by (simp only: of_int_less_iff)
  then have x: "float64_round (real_of_int (5 * Second * 2 ^ i)) = real_of_int (5 * Second * 2 ^ i)"
    using p by (intro float64_round_of_int) simp_all
  have "float64_to_Duration T (real_of_int (5 * Second * 2 ^ i)) = \<lfloor>real_of_int (5 * Second * 2 ^ i)\<rfloor>"
    using p r by (intro float64_to_Duration_in_range) simp_all
  then have d: "float64_to_Duration T (real_of_int (5 * Second * 2 ^ i)) = 5 * Second * 2 ^ i"
    by (simp only: floor_of_int)
  have i: "\<not> 1023 < i" using assms by simp
  have "sleepDuration T (5 * Second) i (1 / 2)
        = min (30 * Second) (float64_to_Duration T (float64_round (real_of_int (5 * Second) * 2 ^ i * 1)))"
    unfolding sleepDuration_def Let_def jitter_half backoff_exact [OF p r] using i
    by (simp add: min_def)
  also have "real_of_int (5 * Second) * 2 ^ i * 1 = real_of_int (5 * Second * 2 ^ i)" by simp
  finally show ?thesis by (simp only: x d)
qed

lemma sleepDuration_largest_draw:
  assumes "\<not> fused_multiply_add T"
  shows "sleepDuration T (5 * Second) 0 (1 - 1 / 2 ^ 53) = 6000000000"
proof -
  have p: "0 \<le> 5 * Second" and r: "real_of_int (5 * Second) * 2 ^ 0 < 2 ^ 53"
    by (simp_all add: Second_def)
  have x: "float64_round (5000000000 * (5404319552844595 / 4503599627370496)) = 6000000000"
  proof -
    have "float64_round (5000000000 * (5404319552844595 / 4503599627370496))
          = of_int (round_half_even (5000000000 * (5404319552844595 / 4503599627370496)
                                     * 2 powi (52 - 32)))
            / 2 powi (52 - 32)"
      by (rule float64_round_eval) simp_all
    also have "round_half_even (5000000000 * (5404319552844595 / 4503599627370496)
                                     * 2 powi (52 - 32)) = 6291456000000000"
      by (simp add: round_half_even_def Let_def)
    finally show ?thesis by simp
  qed
  have d: "float64_to_Duration T 6000000000 = 6000000000"
    by (simp add: float64_to_Duration_def)
  have e: "real_of_int (5 * Second) * 2 ^ 0 * (5404319552844595 / 4503599627370496)
             = 5000000000 * (5404319552844595 / 4503599627370496)"
    by (simp add: Second_def)
  have "sleepDuration T (5 * Second) 0 (1 - 1 / 2 ^ 53)
        = min (30 * Second)
            (float64_to_Duration T
               (float64_round (real_of_int (5 * Second) * 2 ^ 0
                                 * (5404319552844595 / 4503599627370496))))"
    unfolding sleepDuration_def Let_def jitter_largest_draw [OF assms] backoff_exact [OF p r]
    by (simp add: min_def)
  then show ?thesis
    unfolding e x d by (simp add: Second_def)
qed

lemma sleepDuration_quarter:
  assumes "\<not> fused_multiply_add T"
  shows "sleepDuration T (5 * Second) 1 (1 / 4) = 9000000000"
proof -
  have p: "0 \<le> 5 * Second" and r: "real_of_int (5 * Second) * 2 ^ 1 < 2 ^ 53"
    by (simp_all add: Second_def)
  have x: "float64_round (10000000000 * (8106479329266893 / 9007199254740992)) = 9000000000"
  proof -
    have "float64_round (10000000000 * (8106479329266893 / 9007199254740992))
          = of_int (round_half_even (10000000000 * (8106479329266893 / 9007199254740992)
                                     * 2 powi (52 - 33)))
            / 2 powi (52 - 33)"
      by (rule float64_round_eval) simp_all
    also have "round_half_even (10000000000 * (8106479329266893 / 9007199254740992)
                                     * 2 powi (52 - 33)) = 4718592000000000"
      by (simp add: round_half_even_def Let_def)
    finally show ?thesis by simp
  qed
  have d: "float64_to_Duration T 9000000000 = 9000000000"
    by (simp add: float64_to_Duration_def)
  have e: "real_of_int (5 * Second) * 2 ^ 1 * (8106479329266893 / 9007199254740992)
             = 10000000000 * (8106479329266893 / 9007199254740992)"
    by (simp add: Second_def)
  have "sleepDuration T (5 * Second) 1 (1 / 4)
        = min (30 * Second)
            (float64_to_Duration T
               (float64_round (real_of_int (5 * Second) * 2 ^ 1
                                 * (8106479329266893 / 9007199254740992))))"
    unfolding sleepDuration_def Let_def jitter_quarter [OF assms] backoff_exact [OF p r]
    by (simp add: min_def)
  then show ?thesis
    unfolding e x d by (simp add: Second_def)
qed

subsection \<open>The retry loop\<close>

text \<open>
  Claim C1. Let \<^verbatim>\<open>kuma.New\<close> fail on the next \<open>k \<le> N\<close> calls and answer the call
  after them with the handle \<open>kp\<close>. Then \<^verbatim>\<open>newClientDirect\<close> with
  \<^verbatim>\<open>maxRetries = N\<close> returns the \<^verbatim>\<open>Client\<close> of \<open>kp\<close>. It calls
  \<^verbatim>\<open>kuma.New\<close> exactly \<open>k + 1\<close> times and sleeps exactly \<open>k\<close> times: after the
  failed attempt \<open>i < k\<close> it draws one number \<open>u\<close> from \<^verbatim>\<open>rand.Float64()\<close> and
  sleeps for the smaller of 30 seconds and
  \<^verbatim>\<open>time.Duration(float64(baseDelay) * math.Pow(2, i) * r)\<close>, where the jitter \<open>r\<close> is
  \<open>u * 0.4 + 0.8\<close>, all in \<^verbatim>\<open>float64\<close> arithmetic (the statement spells the
  roundings out, with and without fusion of the multiplication and the addition). When
  \<open>u\<close> is a \<^verbatim>\<open>float64\<close> in \<open>[0, 1)\<close>, as \<^verbatim>\<open>rand.Float64()\<close> promises, the jitter
  is in \<open>[0.8, 1.2]\<close>; and while \<open>baseDelay * 2 ^ i\<close> is below \<open>2 ^ 53\<close> the sleep is the
  smaller of 30 seconds and the whole nanoseconds of the \<^verbatim>\<open>float64\<close> nearest to
  \<open>baseDelay * 2 ^ i * r\<close>. \<^verbatim>\<open>newClientDirect\<close> as written is the case \<open>N = 5\<close> with a
  base delay of five seconds. How \<^verbatim>\<open>rand.Float64()\<close> distributes its numbers is a
  property of the library, not of this code.
\<close>

theorem newClientDirect_succeeds_after_k_failures:
  assumes "k \<le> N"
    and "\<forall>j<k. snd (kuma_New T (connect_calls w @ replicate j (BaseURL cfg, Username cfg, Password cfg))
                   (BaseURL cfg) (Username cfg) (Password cfg)) \<noteq> None"
    and "kuma_New T (connect_calls w @ replicate k (BaseURL cfg, Username cfg, Password cfg))
           (BaseURL cfg) (Username cfg) (Password cfg) = (kp, None)"
  shows "let a = EvConnect (BaseURL cfg) (Username cfg) (Password cfg);
             u = (\<lambda>i. rand_Float64 T (rand_calls w + i));
             r = (\<lambda>i. if fused_multiply_add T
                       then float64_round (u i * float64_round (4 / 10) + float64_round (8 / 10))
                       else float64_round (float64_round (u i * float64_round (4 / 10))
                                           + float64_round (8 / 10)));
             x = (\<lambda>i. float64_round
                         (float64_round (float64_round (real_of_int baseDelay) * 2 ^ i) * r i));
             d = (\<lambda>i. min (30 * Second)
                        (if 1023 < i then float64_out_of_range T (x i)
                         else float64_to_Duration T (x i)));
             w' = snd (newClientDirect_with T N baseDelay cfg w)
         in fst (newClientDirect_with T N baseDelay cfg w) = Ok \<lparr>Kuma = kp\<rparr>
          \<and> w' = w @ concat (map (\<lambda>i. [a, EvRand, EvSleep (d i)]) [0..<k]) @ [a]
          \<and> connect_calls w' =
              connect_calls w @ replicate (k + 1) (BaseURL cfg, Username cfg, Password cfg)
          \<and> sleeps w' = sleeps w @ map d [0..<k]
          \<and> (\<forall>i<k. float64_round (u i) = u i \<and> 0 \<le> u i \<and> u i < 1
                 \<longrightarrow> 8 / 10 \<le> r i \<and> r i \<le> 12 / 10)
          \<and> (\<forall>i<k. float64_round (u i) = u i \<and> 0 \<le> u i \<and> u i < 1 \<and> 0 \<le> baseDelay
                     \<and> i \<le> 1023 \<and> real_of_int baseDelay * 2 ^ i < 2 ^ 53
                 \<longrightarrow> d i = min (30 * Second)
                               \<lfloor>float64_round (real_of_int baseDelay * 2 ^ i * r i)\<rfloor>)
          \<and> (N = 5 \<and> baseDelay = 5 * Second
                 \<longrightarrow> newClientDirect T cfg w = newClientDirect_with T N baseDelay cfg w)"
proof -
  let ?a = "EvConnect (BaseURL cfg) (Username cfg) (Password cfg)"
  let ?u = "\<lambda>i. rand_Float64 T (rand_calls w + i)"
  let ?d = "\<lambda>i. sleepDuration T baseDelay i (?u i)"
  have run: "newClientDirect_with T N baseDelay cfg w =
          (Ok \<lparr>Kuma = kp\<rparr>, w @ retry_events T baseDelay cfg (rand_calls w) 0 k @ [?a])"
    using assms by (rule newClientDirect_with_success)
  have res: "fst (newClientDirect_with T N baseDelay cfg w) = Ok \<lparr>Kuma = kp\<rparr>"
    by (simp add: run)
  have tr: "snd (newClientDirect_with T N baseDelay cfg w) =
          w @ concat (map (\<lambda>i. [?a, EvRand, EvSleep (?d i)]) [0..<k]) @ [?a]"
    by (simp add: run retry_events_def)
  have calls: "connect_calls (snd (newClientDirect_with T N baseDelay cfg w)) =
          connect_calls w @ replicate (k + 1) (BaseURL cfg, Username cfg, Password cfg)"
    by (simp add: run connect_calls_append connect_calls_retry_events replicate_append_same)
  have sl: "sleeps (snd (newClientDirect_with T N baseDelay cfg w)) = sleeps w @ map ?d [0..<k]"
    by (simp add: run sleeps_append sleeps_retry_events)
  have jit: "\<forall>i<k. float64_round (?u i) = ?u i \<and> 0 \<le> ?u i \<and> ?u i < 1
               \<longrightarrow> 8 / 10 \<le> jitter T (?u i) \<and> jitter T (?u i) \<le> 12 / 10"
    using jitter_bounds by blast
  have rng: "\<forall>i<k. float64_round (?u i) = ?u i \<and> 0 \<le> ?u i \<and> ?u i < 1 \<and> 0 \<le> baseDelay
                 \<and> i \<le> 1023 \<and> real_of_int baseDelay * 2 ^ i < 2 ^ 53
               \<longrightarrow> ?d i = min (30 * Second)
                               \<lfloor>float64_round (real_of_int baseDelay * 2 ^ i * jitter T (?u i))\<rfloor>"
    using sleepDuration_in_range by blast
  have inst: "N = 5 \<and> baseDelay = 5 * Second
               \<longrightarrow> newClientDirect T cfg w = newClientDirect_with T N baseDelay cfg w"
    by (simp add: newClientDirect_def)
  from res tr calls sl jit rng inst show ?thesis
    unfolding Let_def sleepDuration_unfold jitter_def by (intro conjI)
qed

text \<open>
  The theorem at a test double that fails twice and whose first two draws are the
  largest \<^verbatim>\<open>float64\<close> below 1 and one quarter: \<^verbatim>\<open>newClientDirect\<close> makes three
  attempts and sleeps six seconds (the product \<open>5999999999.9999998\<close> rounds up to the
  \<^verbatim>\<open>float64\<close> \<open>6000000000\<close>) and nine seconds.
\<close>

theorem newClientDirect_succeeds_after_k_failures_witness:
  "map (\<lambda>j. kuma_New (stub_env 2 []) (replicate j (''http://x'', ''a'', ''b''))
               ''http://x'' ''a'' ''b'') [0, 1, 2]
     = [(None, Some (GoError ''login: Too frequently'' None)),
        (None, Some (GoError ''login: Too frequently'' None)),
        (Some 2, None)]
   \<and> newClientDirect
        ((stub_env 2 [])\<lparr>rand_Float64 := (\<lambda>n. if n = 0 then 1 - 1 / 2 ^ 53 else 1 / 4)\<rparr>)
        example_config [] =
       (Ok \<lparr>Kuma = Some 2\<rparr>,
        [EvConnect ''http://x'' ''a'' ''b'', EvRand, EvSleep 6000000000,
         EvConnect ''http://x'' ''a'' ''b'', EvRand, EvSleep 9000000000,
         EvConnect ''http://x'' ''a'' ''b''])"
proof -
  let ?T = "(stub_env 2 [])\<lparr>rand_Float64 := (\<lambda>n. if n = 0 then 1 - 1 / 2 ^ 53 else 1 / 4)\<rparr>"
  have h1: "(2::nat) \<le> 5" by simp
  have h2: "\<forall>j<2. snd (kuma_New ?T
                  (connect_calls [] @ replicate j (BaseURL example_config, Username example_config,
                                                  Password example_config))
                  (BaseURL example_config) (Username example_config) (Password example_config))
              \<noteq> None"
    by (simp add: stub_env_def)
  have h3: "kuma_New ?T
        (connect_calls [] @ replicate 2 (BaseURL example_config, Username example_config,
                                        Password example_config))
        (BaseURL example_config) (Username example_config) (Password example_config)
      = (Some 2, None)"
    by (simp add: stub_env_def)
  have up: "[0..<2] = [0, Suc 0]"
    by (simp add: numeral_2_eq_2)
  have nf: "\<not> fused_multiply_add ?T"
    by (simp add: stub_env_def)
  have r: "rand_Float64 ?T = (\<lambda>n. if n = 0 then 1 - 1 / 2 ^ 53 else 1 / 4)"
    by simp
  have c: "BaseURL example_config = ''http://x''" "Username example_config = ''a''"
    "Password example_config = ''b''"
    by (simp_all add: example_config_def)
  have s0: "sleepDuration ?T (5 * Second) 0 (9007199254740991 / 9007199254740992) = 6000000000"
    using sleepDuration_largest_draw [OF nf] by simp
  have s1: "sleepDuration ?T (5 * Second) (Suc 0) (1 / 4) = 9000000000"
    using sleepDuration_quarter [OF nf] by simp
  note t = newClientDirect_succeeds_after_k_failures
             [OF h1 h2 h3, of "5 * Second", unfolded Let_def sleepDuration_unfold [symmetric]]
  from t have "fst (newClientDirect_with ?T 5 (5 * Second) example_config []) = Ok \<lparr>Kuma = Some 2\<rparr>"
    by (rule conjunct1)
  moreover
  from t have "snd (newClientDirect_with ?T 5 (5 * Second) example_config []) =
        [EvConnect ''http://x'' ''a'' ''b'', EvRand, EvSleep 6000000000,
         EvConnect ''http://x'' ''a'' ''b'', EvRand, EvSleep 9000000000,
         EvConnect ''http://x'' ''a'' ''b'']"
    unfolding up r c by (simp add: s0 s1)
  ultimately have "newClientDirect ?T example_config [] =
       (Ok \<lparr>Kuma = Some 2\<rparr>,
        [EvConnect ''http://x'' ''a'' ''b'', EvRand, EvSleep 6000000000,
         EvConnect ''http://x'' ''a'' ''b'', EvRand, EvSleep 9000000000,
         EvConnect ''http://x'' ''a'' ''b''])"
    by (simp add: newClientDirect_def prod_eq_iff)
  moreover have "map (\<lambda>j. kuma_New (stub_env 2 []) (replicate j (''http://x'', ''a'', ''b''))
               ''http://x'' ''a'' ''b'') [0, 1, 2]
     = [(None, Some (GoError ''login: Too frequently'' None)),
        (None, Some (GoError ''login: Too frequently'' None)),
        (Some 2, None)]"
    by (simp add: stub_env_def)
  ultimately show ?thesis by simp
qed

text \<open>
  Claim C2. Let \<^verbatim>\<open>kuma.New\<close> fail on each of the next \<open>N + 1\<close> calls, the last of
  them with the error \<open>e\<close>. Then \<^verbatim>\<open>newClientDirect\<close> with \<^verbatim>\<open>maxRetries = N\<close>
  returns the error \<^verbatim>\<open>failed to connect to Uptime Kuma after <N+1> attempts: <e>\<close>,
  which wraps \<open>e\<close>. It calls \<^verbatim>\<open>kuma.New\<close> exactly \<open>N + 1\<close> times and sleeps
  exactly \<open>N\<close> times, once after each of the first \<open>N\<close> failed attempts; the last event of
  the run is the last failed attempt, with no sleep after it.
\<close>

theorem newClientDirect_exhausted_after_all_failures:
  assumes "\<forall>j<N. snd (kuma_New T (connect_calls w @ replicate j (BaseURL cfg, Username cfg, Password cfg))
                   (BaseURL cfg) (Username cfg) (Password cfg)) \<noteq> None"
    and "kuma_New T (connect_calls w @ replicate N (BaseURL cfg, Username cfg, Password cfg))
           (BaseURL cfg) (Username cfg) (Password cfg) = (k0, Some e)"
  shows "let a = EvConnect (BaseURL cfg) (Username cfg) (Password cfg);
             u = (\<lambda>i. rand_Float64 T (rand_calls w + i));
             r = (\<lambda>i. if fused_multiply_add T
                       then float64_round (u i * float64_round (4 / 10) + float64_round (8 / 10))
                       else float64_round (float64_round (u i * float64_round (4 / 10))
                                           + float64_round (8 / 10)));
             x = (\<lambda>i. float64_round
                         (float64_round (float64_round (real_of_int baseDelay) * 2 ^ i) * r i));
             d = (\<lambda>i. min (30 * Second)
                        (if 1023 < i then float64_out_of_range T (x i)
                         else float64_to_Duration T (x i)));
             w' = snd (newClientDirect_with T N baseDelay cfg w)
         in fst (newClientDirect_with T N baseDelay cfg w) =
              Err (GoError (''failed to connect to Uptime Kuma after '' @ itoa (N + 1)
                            @ '' attempts: '' @ Error_msg e) (Some e))
          \<and> w' = w @ concat (map (\<lambda>i. [a, EvRand, EvSleep (d i)]) [0..<N]) @ [a]
          \<and> connect_calls w' =
              connect_calls w @ replicate (N + 1) (BaseURL cfg, Username cfg, Password cfg)
          \<and> length (sleeps w') = length (sleeps w) + N
          \<and> (N = 5 \<and> baseDelay = 5 * Second
                 \<longrightarrow> newClientDirect T cfg w = newClientDirect_with T N baseDelay cfg w)"
proof -
  let ?a = "EvConnect (BaseURL cfg) (Username cfg) (Password cfg)"
  let ?d = "\<lambda>i. sleepDuration T baseDelay i (rand_Float64 T (rand_calls w + i))"
  have run: "newClientDirect_with T N baseDelay cfg w =
          (Err (exhausted N (Some e)),
           w @ retry_events T baseDelay cfg (rand_calls w) 0 N @ [?a])"
    using assms by (rule newClientDirect_with_exhausted)
  have res: "fst (newClientDirect_with T N baseDelay cfg w) =
              Err (GoError (''failed to connect to Uptime Kuma after '' @ itoa (N + 1)
                            @ '' attempts: '' @ Error_msg e) (Some e))"
    by (simp add: run exhausted_def fmt_error_def)
  have tr: "snd (newClientDirect_with T N baseDelay cfg w) =
          w @ concat (map (\<lambda>i. [?a, EvRand, EvSleep (?d i)]) [0..<N]) @ [?a]"
    by (simp add: run retry_events_def)
  have calls: "connect_calls (snd (newClientDirect_with T N baseDelay cfg w)) =
          connect_calls w @ replicate (N + 1) (BaseURL cfg, Username cfg, Password cfg)"
    by (simp add: run connect_calls_append connect_calls_retry_events replicate_append_same)
  have sl: "length (sleeps (snd (newClientDirect_with T N baseDelay cfg w))) = length (sleeps w) + N"
    by (simp add: run sleeps_append sleeps_retry_events)
  have inst: "N = 5 \<and> baseDelay = 5 * Second
               \<longrightarrow> newClientDirect T cfg w = newClientDirect_with T N baseDelay cfg w"
    by (simp add: newClientDirect_def)
  from res tr calls sl inst show ?thesis
    unfolding Let_def sleepDuration_unfold by (intro conjI)
qed

text \<open>
  The theorem at a test double that always fails: six attempts, and sleeps of 5, 10, 20, 30
  and 30 seconds between them (the jitter of the draw one half is 1).
\<close>

theorem newClientDirect_exhausted_after_all_failures_witness:
  "map (\<lambda>j. kuma_New (stub_env 6 []) (replicate j (''http://x'', ''a'', ''b''))
               ''http://x'' ''a'' ''b'') [0, 1, 2, 3, 4, 5]
     = replicate 6 (None, Some (GoError ''login: Too frequently'' None))
   \<and> newClientDirect (stub_env 6 []) example_config [] =
       (Err (GoError ''failed to connect to Uptime Kuma after 6 attempts: login: Too frequently''
                     (Some (GoError ''login: Too frequently'' None))),
        [EvConnect ''http://x'' ''a'' ''b'', EvRand, EvSleep 5000000000,
         EvConnect ''http://x'' ''a'' ''b'', EvRand, EvSleep 10000000000,
         EvConnect ''http://x'' ''a'' ''b'', EvRand, EvSleep 20000000000,
         EvConnect ''http://x'' ''a'' ''b'', EvRand, EvSleep 30000000000,
         EvConnect ''http://x'' ''a'' ''b'', EvRand, EvSleep 30000000000,
         EvConnect ''http://x'' ''a'' ''b''])"
proof -
  have h1: "\<forall>j<5. snd (kuma_New (stub_env 6 [])
                  (connect_calls [] @ replicate j (BaseURL example_config, Username example_config,
                                                  Password example_config))
                  (BaseURL example_config) (Username example_config) (Password example_config))
              \<noteq> None"
    by (simp add: stub_env_def)
  have h2: "kuma_New (stub_env 6 [])
        (connect_calls [] @ replicate 5 (BaseURL example_config, Username example_config,
                                        Password example_config))
        (BaseURL example_config) (Username example_config) (Password example_config)
      = (None, Some (GoError ''login: Too frequently'' None))"
    by (simp add: stub_env_def)
  have up: "[0..<5] = [0, 1, 2, 3, 4]"
    by (simp add: eval_nat_numeral)
  have r: "rand_Float64 (stub_env 6 []) = (\<lambda>n. 1 / 2)"
    by (simp add: stub_env_def)
  have c: "BaseURL example_config = ''http://x''" "Username example_config = ''a''"
    "Password example_config = ''b''"
    by (simp_all add: example_config_def)
  have i: "itoa 6 = ''6''"
    by (simp add: itoa.simps digit_char_def)
  have s: "sleepDuration T (5 * Second) 0 (1 / 2) = 5000000000"
    "sleepDuration T (5 * Second) (Suc 0) (1 / 2) = 10000000000"
    "sleepDuration T (5 * Second) 2 (1 / 2) = 20000000000"
    "sleepDuration T (5 * Second) 3 (1 / 2) = 30000000000"
    "sleepDuration T (5 * Second) 4 (1 / 2) = 30000000000" for T
    using sleepDuration_half [of 0 T] sleepDuration_half [of 1 T] sleepDuration_half [of 2 T]
      sleepDuration_half [of 3 T] sleepDuration_half [of 4 T]
    by (simp_all add: Second_def)
  note t = newClientDirect_exhausted_after_all_failures
             [OF h1 h2, of "5 * Second", unfolded Let_def sleepDuration_unfold [symmetric]]
  from t have "fst (newClientDirect_with (stub_env 6 []) 5 (5 * Second) example_config []) =
       Err (GoError ''failed to connect to Uptime Kuma after 6 attempts: login: Too frequently''
                     (Some (GoError ''login: Too frequently'' None)))"
    by (simp add: i)
  moreover
  from t have "snd (newClientDirect_with (stub_env 6 []) 5 (5 * Second) example_config []) =
        [EvConnect ''http://x'' ''a'' ''b'', EvRand, EvSleep 5000000000,
         EvConnect ''http://x'' ''a'' ''b'', EvRand, EvSleep 10000000000,
         EvConnect ''http://x'' ''a'' ''b'', EvRand, EvSleep 20000000000,
         EvConnect ''http://x'' ''a'' ''b'', EvRand, EvSleep 30000000000,
         EvConnect ''http://x'' ''a'' ''b'', EvRand, EvSleep 30000000000,
         EvConnect ''http://x'' ''a'' ''b'']"
    unfolding up r c by (simp add: s)
  ultimately have "newClientDirect (stub_env 6 []) example_config [] =
       (Err (GoError ''failed to connect to Uptime Kuma after 6 attempts: login: Too frequently''
                     (Some (GoError ''login: Too frequently'' None))),
        [EvConnect ''http://x'' ''a'' ''b'', EvRand, EvSleep 5000000000,
         EvConnect ''http://x'' ''a'' ''b'', EvRand, EvSleep 10000000000,
         EvConnect ''http://x'' ''a'' ''b'', EvRand, EvSleep 20000000000,
         EvConnect ''http://x'' ''a'' ''b'', EvRand, EvSleep 30000000000,
         EvConnect ''http://x'' ''a'' ''b'', EvRand, EvSleep 30000000000,
         EvConnect ''http://x'' ''a'' ''b''])"
    by (simp add: newClientDirect_def prod_eq_iff)
  moreover have "map (\<lambda>j. kuma_New (stub_env 6 []) (replicate j (''http://x'', ''a'', ''b''))
               ''http://x'' ''a'' ''b'') [0, 1, 2, 3, 4, 5]
     = replicate 6 (None, Some (GoError ''login: Too frequently'' None))"
    by (simp add: stub_env_def eval_nat_numeral)
  ultimately show ?thesis by simp
qed

subsection \<open>What every run of the factory does\<close>

lemma connect_loop_extends: "\<exists>t. snd (connect_loop T N b cfg i e w) = w @ t"
proof (induction T N b cfg i e w rule: connect_loop.induct)
  case (1 T maxRetries baseDelay cfg i err w)
  show ?case
  proof (cases "i \<le> maxRetries")
    case False
    then show ?thesis by (subst connect_loop.simps) simp
  next
    case le: True
    obtain k oe where r: "kuma_New T (connect_calls w) (BaseURL cfg) (Username cfg) (Password cfg) = (k, oe)"
      by (cases "kuma_New T (connect_calls w) (BaseURL cfg) (Username cfg) (Password cfg)")
    show ?thesis
    proof (cases oe)
      case None
      with le r show ?thesis by (subst connect_loop.simps) simp
    next
      case (Some e0)
      show ?thesis
      proof (cases "i = maxRetries")
        case True
        with le r Some show ?thesis by (subst connect_loop.simps) simp
      next
        case False
        from "1.IH" [OF le r [symmetric] Some False]
        obtain t where "snd (connect_loop T maxRetries baseDelay cfg (i + 1) (Some e0)
                 (w @ [EvConnect (BaseURL cfg) (Username cfg) (Password cfg), EvRand,
                       EvSleep (sleepDuration T baseDelay i (rand_Float64 T (rand_calls w)))]))
              = (w @ [EvConnect (BaseURL cfg) (Username cfg) (Password cfg), EvRand,
                       EvSleep (sleepDuration T baseDelay i (rand_Float64 T (rand_calls w)))]) @ t"
          by blast
        with le r Some False show ?thesis by (subst connect_loop.simps) simp
      qed
    qed
  qed
qed


lemma connect_loop_first_connect:
  assumes "i \<le> N"
  shows "\<exists>t. snd (connect_loop T N b cfg i e w) =
              w @ EvConnect (BaseURL cfg) (Username cfg) (Password cfg) # t"
proof -
  obtain k oe where r: "kuma_New T (connect_calls w) (BaseURL cfg) (Username cfg) (Password cfg) = (k, oe)"
    by (cases "kuma_New T (connect_calls w) (BaseURL cfg) (Username cfg) (Password cfg)")
  show ?thesis
  proof (cases "oe = None \<or> i = N")
    case True
    with assms r show ?thesis
      by (subst connect_loop.simps) (auto split: option.splits)
  next
    case False
    then obtain e0 where e0: "oe = Some e0" "i \<noteq> N" by auto
    obtain t where "snd (connect_loop T N b cfg (i + 1) (Some e0)
                 (w @ [EvConnect (BaseURL cfg) (Username cfg) (Password cfg), EvRand,
                       EvSleep (sleepDuration T b i (rand_Float64 T (rand_calls w)))]))
              = (w @ [EvConnect (BaseURL cfg) (Username cfg) (Password cfg), EvRand,
                       EvSleep (sleepDuration T b i (rand_Float64 T (rand_calls w)))]) @ t"
      using connect_loop_extends by blast
    with assms r e0 show ?thesis by (subst connect_loop.simps) simp
  qed
qed

lemma connect_loop_no_panic: "fst (connect_loop T N b cfg i e w) \<noteq> Panic s"
proof (induction T N b cfg i e w rule: connect_loop.induct)
  case (1 T maxRetries baseDelay cfg i err w)
  show ?case
  proof (cases "i \<le> maxRetries")
    case False
    then show ?thesis by (subst connect_loop.simps) simp
  next
    case le: True
    obtain k oe where r: "kuma_New T (connect_calls w) (BaseURL cfg) (Username cfg) (Password cfg) = (k, oe)"
      by (cases "kuma_New T (connect_calls w) (BaseURL cfg) (Username cfg) (Password cfg)")
    show ?thesis
    proof (cases "oe = None \<or> i = maxRetries")
      case True
      with le r show ?thesis
        by (subst connect_loop.simps) (auto split: option.splits)
    next
      case False
      then obtain e0 where e0: "oe = Some e0" "i \<noteq> maxRetries" by auto
      from "1.IH" [OF le r [symmetric] e0] le r e0 show ?thesis
        by (subst connect_loop.simps) simp
    qed
  qed
qed

lemma newClientDirect_first_connect:
  "\<exists>t. snd (newClientDirect T cfg w) = w @ EvConnect (BaseURL cfg) (Username cfg) (Password cfg) # t"
  unfolding newClientDirect_def newClientDirect_with_def
  by (rule connect_loop_first_connect) simp

lemma newClientDirect_no_panic: "fst (newClientDirect T cfg w) \<noteq> Panic s"
  unfolding newClientDirect_def newClientDirect_with_def
  by (rule connect_loop_no_panic)

lemma newClientDirect_cases:
  obtains (Ok) c w' where "newClientDirect T cfg w = (Ok c, w')"
  | (Err) e w' where "newClientDirect T cfg w = (Err e, w')"
proof (cases "newClientDirect T cfg w")
  case (Pair r w')
  with newClientDirect_no_panic [of T cfg w] that show ?thesis
    by (cases r) auto
qed

lemma newClientDirect_stub_env_0:
  "newClientDirect (stub_env 0 v) cfg w =
     (Ok \<lparr>Kuma = Some (length (connect_calls w))\<rparr>,
      w @ [EvConnect (BaseURL cfg) (Username cfg) (Password cfg)])"
  unfolding newClientDirect_def newClientDirect_with_def
  by (rule connect_loop_success_step) (simp_all add: stub_env_def)

subsection \<open>The states of a pool\<close>

lemma GetOrCreate_held:
  assumes "client p = Some c" and "config p = Some pc"
  shows "GetOrCreate T p cfg w =
         (if BaseURL pc = BaseURL cfg \<and> Username pc = Username cfg \<and> Password pc = Password cfg
          then (Ok c, p\<lparr>refs := refs p + 1\<rparr>, w)
          else (Err (GoError (''connection pool config mismatch: existing connection uses different credentials (URL: ''
                              @ BaseURL pc @ '' vs '' @ BaseURL cfg @ '')'') None), p, w))"
  using assms by (simp add: GetOrCreate_def configMatches_def)

lemma GetOrCreate_empty_Ok:
  assumes "client p = None" and "newClientDirect T cfg w = (Ok c, w')"
  shows "GetOrCreate T p cfg w = (Ok c, p\<lparr>client := Some c, config := Some cfg, refs := 1\<rparr>, w')"
  using assms by (simp add: GetOrCreate_def)

lemma GetOrCreate_empty_Err:
  assumes "client p = None" and "newClientDirect T cfg w = (Err e, w')"
  shows "GetOrCreate T p cfg w =
         (Err (GoError (''failed to create pooled connection: '' @ Error_msg e) (Some e)), p, w')"
  using assms by (simp add: GetOrCreate_def fmt_error_def)

text \<open>
  Two facts hold of a pool whatever was called on it: the two pointers are nil together,
  and then the counter is 0.
\<close>

lemma GetOrCreate_inv:
  assumes "(client p = None \<longleftrightarrow> config p = None) \<and> (client p = None \<longrightarrow> refs p = 0)"
    and "GetOrCreate T p cfg w = (r, p', w')"
  shows "(client p' = None \<longleftrightarrow> config p' = None) \<and> (client p' = None \<longrightarrow> refs p' = 0)"
proof (cases "client p")
  case None
  show ?thesis
  proof (cases rule: newClientDirect_cases [of T cfg w])
    case (Ok c w2)
    with None assms show ?thesis by (auto simp: GetOrCreate_empty_Ok)
  next
    case (Err e w2)
    with None assms show ?thesis by (auto simp: GetOrCreate_empty_Err)
  qed
next
  case (Some c)
  with assms(1) obtain pc where "config p = Some pc" by auto
  with Some assms show ?thesis
    by (auto simp: GetOrCreate_held split: if_splits)
qed

lemma pool_step_inv:
  assumes "(client (fst s) = None \<longleftrightarrow> config (fst s) = None)
           \<and> (client (fst s) = None \<longrightarrow> refs (fst s) = 0)"
  shows "(client (fst (pool_step T x s)) = None \<longleftrightarrow> config (fst (pool_step T x s)) = None)
         \<and> (client (fst (pool_step T x s)) = None \<longrightarrow> refs (fst (pool_step T x s)) = 0)"
proof (cases s)
  case (Pair p w)
  show ?thesis
  proof (cases x)
    case (OpGetOrCreate cfg)
    obtain r p' w' where g: "GetOrCreate T p cfg w = (r, p', w')"
      by (cases "GetOrCreate T p cfg w")
    from GetOrCreate_inv [OF _ g] assms Pair have
      "(client p' = None \<longleftrightarrow> config p' = None) \<and> (client p' = None \<longrightarrow> refs p' = 0)"
      by simp
    with Pair OpGetOrCreate g show ?thesis by simp
  next
    case OpRelease
    with Pair assms show ?thesis by (auto simp: Release_def)
  next
    case OpClose
    with Pair assms show ?thesis
      by (auto simp: Close_def split: option.splits prod.splits)
  qed
qed

lemma pool_run_inv:
  assumes "(client (fst s) = None \<longleftrightarrow> config (fst s) = None)
           \<and> (client (fst s) = None \<longrightarrow> refs (fst s) = 0)"
  shows "(client (fst (pool_run T xs s)) = None \<longleftrightarrow> config (fst (pool_run T xs s)) = None)
         \<and> (client (fst (pool_run T xs s)) = None \<longrightarrow> refs (fst (pool_run T xs s)) = 0)"
  using assms
proof (induction xs arbitrary: s)
  case Nil
  then show ?case by simp
next
  case (Cons x xs)
  from Cons.prems have
    "(client (fst (pool_step T x s)) = None \<longleftrightarrow> config (fst (pool_step T x s)) = None)
         \<and> (client (fst (pool_step T x s)) = None \<longrightarrow> refs (fst (pool_step T x s)) = 0)"
    by (rule pool_step_inv)
  then show ?case
    using Cons.IH [of "pool_step T x s"] by simp
qed

lemma pool_run_new_Pool_inv:
  "(client (fst (pool_run T xs (new_Pool, w))) = None
        \<longleftrightarrow> config (fst (pool_run T xs (new_Pool, w))) = None)
   \<and> (client (fst (pool_run T xs (new_Pool, w))) = None
        \<longrightarrow> refs (fst (pool_run T xs (new_Pool, w))) = 0)"
  by (rule pool_run_inv) (simp add: new_Pool_def)

text \<open>
  The counter as a number. Adding one is exact below the largest \<^verbatim>\<open>int\<close> and wraps
  there; taking one from a positive counter is exact.
\<close>

lemma sint_refs_inc:
  fixes x :: go_int
  assumes "sint x < 2 ^ 63 - 1"
  shows "sint (x + 1) = sint x + 1"
proof -
  have "- (2 ^ 63) \<le> sint x"
    using sint_ge [of x] by simp
  with assms show ?thesis
    by (simp add: sint_word_ariths signed_take_bit_int_eq_self)
qed

lemma sint_refs_dec:
  fixes x :: go_int
  assumes "0 < sint x"
  shows "sint (x - 1) = sint x - 1"
proof -
  have "sint x < 2 ^ 63"
    using sint_lt [of x] by simp
  with assms show ?thesis
    by (simp add: sint_word_ariths signed_take_bit_int_eq_self)
qed

lemma sint_refs_wrap:
  fixes x :: go_int
  assumes "sint x = 2 ^ 63 - 1"
  shows "sint (x + 1) = - (2 ^ 63)"
proof -
  have "x = word_of_int (sint x)" by simp
  then have "x = 9223372036854775807" unfolding assms by simp
  then show ?thesis by simp
qed

text \<open>
  After \<open>n\<close> calls on a new pool the counter is between 0 and \<open>n\<close>, as long as \<open>n\<close> is
  below \<open>2 ^ 63\<close>: each call adds at most one.
\<close>

lemma pool_step_refs_bounds:
  assumes "0 \<le> sint (refs (fst s))" and "sint (refs (fst s)) \<le> int n" and "int n < 2 ^ 63 - 1"
  shows "0 \<le> sint (refs (fst (pool_step T x s))) \<and> sint (refs (fst (pool_step T x s))) \<le> int (Suc n)"
proof (cases s)
  case (Pair p w)
  show ?thesis
  proof (cases x)
    case (OpGetOrCreate cfg)
    from assms Pair have inc: "sint (refs p + 1) = sint (refs p) + 1"
      by (intro sint_refs_inc) simp
    show ?thesis
    proof (cases "client p")
      case None
      show ?thesis
      proof (cases rule: newClientDirect_cases [of T cfg w])
        case (Ok c w2)
        with None Pair OpGetOrCreate show ?thesis by (simp add: GetOrCreate_empty_Ok)
      next
        case (Err e w2)
        with None Pair OpGetOrCreate assms show ?thesis by (simp add: GetOrCreate_empty_Err)
      qed
    next
      case (Some c)
      with Pair OpGetOrCreate assms inc show ?thesis
        by (auto simp: GetOrCreate_def split: option.splits)
    qed
  next
    case OpRelease
    with Pair assms sint_refs_dec [of "refs p"] show ?thesis
      by (auto simp: Release_def)
  next
    case OpClose
    with Pair assms show ?thesis
      by (auto simp: Close_def split: option.splits prod.splits)
  qed
qed

lemma pool_run_refs_bounds:
  assumes "0 \<le> sint (refs (fst s))" and "sint (refs (fst s)) \<le> int n"
    and "int n + int (length xs) < 2 ^ 63"
  shows "0 \<le> sint (refs (fst (pool_run T xs s)))
         \<and> sint (refs (fst (pool_run T xs s))) \<le> int n + int (length xs)"
  using assms
proof (induction xs arbitrary: s n)
  case Nil
  then show ?case by simp
next
  case (Cons x xs)
  from Cons.prems have "int n < 2 ^ 63 - 1" by simp
  with Cons.prems have
    "0 \<le> sint (refs (fst (pool_step T x s))) \<and> sint (refs (fst (pool_step T x s))) \<le> int (Suc n)"
    by (intro pool_step_refs_bounds) simp_all
  with Cons.IH [of "pool_step T x s" "Suc n"] Cons.prems(3) show ?case
    by simp
qed

lemma pool_run_new_Pool_refs:
  assumes "int (length xs) < 2 ^ 63"
  shows "0 \<le> sint (refs (fst (pool_run T xs (new_Pool, w))))"
  using pool_run_refs_bounds [of "(new_Pool, w)" 0 xs T] assms
  by (simp add: new_Pool_def)

text \<open>
  Acquiring \<open>n\<close> times from a pool that holds a client with the same configuration adds
  \<open>n\<close> to the counter, in the arithmetic of \<^verbatim>\<open>int\<close>.
\<close>

lemma pool_run_acquire_held:
  assumes "client p = Some c" and "config p = Some pc"
    and "BaseURL pc = BaseURL cfg" and "Username pc = Username cfg"
    and "Password pc = Password cfg"
  shows "pool_run T (replicate n (OpGetOrCreate cfg)) (p, w) = (p\<lparr>refs := refs p + of_nat n\<rparr>, w)"
  using assms
proof (induction n arbitrary: p)
  case 0
  then show ?case by simp
next
  case (Suc n)
  from Suc.prems have "pool_run T (replicate (Suc n) (OpGetOrCreate cfg)) (p, w)
        = pool_run T (replicate n (OpGetOrCreate cfg)) (p\<lparr>refs := refs p + 1\<rparr>, w)"
    by (simp add: GetOrCreate_held)
  also have "\<dots> = ((p\<lparr>refs := refs p + 1\<rparr>)\<lparr>refs := refs (p\<lparr>refs := refs p + 1\<rparr>) + of_nat n\<rparr>, w)"
    using Suc.prems by (intro Suc.IH) simp_all
  finally show ?case by (simp add: add.assoc)
qed

subsection \<open>Acquiring from the pool\<close>

text \<open>
  Claim C3, amended. When the pool holds a client and the requested configuration has
  the same \<^verbatim>\<open>BaseURL\<close>, \<^verbatim>\<open>Username\<close> and \<^verbatim>\<open>Password\<close> as the stored one
  (whatever the two \<^verbatim>\<open>EnableConnectionPool\<close> flags are), \<^verbatim>\<open>GetOrCreate\<close> returns
  the held client and executes \<^verbatim>\<open>p.refs++\<close>: the counter goes up by exactly one when
  it is below the largest \<^verbatim>\<open>int\<close>, and from the largest \<^verbatim>\<open>int\<close> it wraps to the
  smallest. The other fields stay and the trace stays, so neither
  \<^verbatim>\<open>newClientDirect\<close> nor \<^verbatim>\<open>kuma.New\<close> has been called (each run of
  \<^verbatim>\<open>newClientDirect\<close> adds a connect event: \<open>newClientDirect_first_connect\<close>).
\<close>

theorem GetOrCreate_reuses_held_client:
  assumes "client p = Some c" and "config p = Some pc"
    and "BaseURL pc = BaseURL cfg" and "Username pc = Username cfg"
    and "Password pc = Password cfg"
  shows "GetOrCreate T p cfg w = (Ok c, p\<lparr>refs := refs p + 1\<rparr>, w)
         \<and> (sint (refs p) < 2 ^ 63 - 1
              \<longrightarrow> sint (refs (fst (snd (GetOrCreate T p cfg w)))) = sint (refs p) + 1)
         \<and> (sint (refs p) = 2 ^ 63 - 1
              \<longrightarrow> sint (refs (fst (snd (GetOrCreate T p cfg w)))) = - (2 ^ 63))
         \<and> client (fst (snd (GetOrCreate T p cfg w))) = Some c
         \<and> config (fst (snd (GetOrCreate T p cfg w))) = Some pc
         \<and> snd (snd (GetOrCreate T p cfg w)) = w
         \<and> connect_calls (snd (snd (GetOrCreate T p cfg w))) = connect_calls w"
  using assms by (simp add: GetOrCreate_held sint_refs_inc sint_refs_wrap)

theorem GetOrCreate_reuses_held_client_witness:
  "GetOrCreate (stub_env 0 [])
     \<lparr>client = Some \<lparr>Kuma = Some 0\<rparr>, config = Some example_config, refs = 1\<rparr>
     (example_config\<lparr>EnableConnectionPool := True\<rparr>) [EvConnect ''http://x'' ''a'' ''b'']
   = (Ok \<lparr>Kuma = Some 0\<rparr>,
      \<lparr>client = Some \<lparr>Kuma = Some 0\<rparr>, config = Some example_config, refs = 2\<rparr>,
      [EvConnect ''http://x'' ''a'' ''b''])
   \<and> sint (refs (fst (snd (GetOrCreate (stub_env 0 [])
        \<lparr>client = Some \<lparr>Kuma = Some 0\<rparr>, config = Some example_config, refs = 1\<rparr>
        (example_config\<lparr>EnableConnectionPool := True\<rparr>) [EvConnect ''http://x'' ''a'' ''b''])))) = 2"
  using GetOrCreate_reuses_held_client
    [of "\<lparr>client = Some \<lparr>Kuma = Some 0\<rparr>, config = Some example_config, refs = 1\<rparr>"
        "\<lparr>Kuma = Some 0\<rparr>" example_config "example_config\<lparr>EnableConnectionPool := True\<rparr>"
        "stub_env 0 []" "[EvConnect ''http://x'' ''a'' ''b'']"]
  by simp

text \<open>
  The claim as it stands fails where the counter is the largest \<^verbatim>\<open>int\<close>: the counter
  does not go up by one, it becomes the smallest \<^verbatim>\<open>int\<close>.
\<close>

theorem GetOrCreate_refs_wrap_counterexample:
  "sint (refs \<lparr>client = Some \<lparr>Kuma = Some 0\<rparr>, config = Some example_config,
               refs = 9223372036854775807\<rparr>) = 9223372036854775807
   \<and> sint (refs (fst (snd (GetOrCreate (stub_env 0 [])
        \<lparr>client = Some \<lparr>Kuma = Some 0\<rparr>, config = Some example_config,
          refs = 9223372036854775807\<rparr>
        example_config [])))) = - 9223372036854775808"
  by (simp add: GetOrCreate_held)

text \<open>
  Claim C4. When the pool holds a client and the requested configuration differs from
  the stored one in \<^verbatim>\<open>BaseURL\<close>, \<^verbatim>\<open>Username\<close> or \<^verbatim>\<open>Password\<close>,
  \<^verbatim>\<open>GetOrCreate\<close> returns an error whose message names the stored and the requested
  \<^verbatim>\<open>BaseURL\<close>, and the pool (client, configuration and counter) and the trace are as
  before.
\<close>

theorem GetOrCreate_config_mismatch:
  assumes "client p = Some c" and "config p = Some pc"
    and "\<not> (BaseURL pc = BaseURL cfg \<and> Username pc = Username cfg \<and> Password pc = Password cfg)"
  shows "GetOrCreate T p cfg w =
         (Err (GoError (''connection pool config mismatch: existing connection uses different credentials (URL: ''
                        @ BaseURL pc @ '' vs '' @ BaseURL cfg @ '')'') None), p, w)"
  using assms by (simp add: GetOrCreate_held)

theorem GetOrCreate_config_mismatch_witness:
  "GetOrCreate (stub_env 0 [])
     \<lparr>client = Some \<lparr>Kuma = Some 0\<rparr>, config = Some example_config, refs = 3\<rparr>
     (example_config\<lparr>BaseURL := ''http://y''\<rparr>) []
   = (Err (GoError ''connection pool config mismatch: existing connection uses different credentials (URL: http://x vs http://y)'' None),
      \<lparr>client = Some \<lparr>Kuma = Some 0\<rparr>, config = Some example_config, refs = 3\<rparr>, [])"
  using GetOrCreate_config_mismatch
    [of "\<lparr>client = Some \<lparr>Kuma = Some 0\<rparr>, config = Some example_config, refs = 3\<rparr>"
        "\<lparr>Kuma = Some 0\<rparr>" example_config "example_config\<lparr>BaseURL := ''http://y''\<rparr>"
        "stub_env 0 []" "[]"]
  by (simp add: example_config_def)

text \<open>
  Claim C8. On a pool that holds no client \<^verbatim>\<open>GetOrCreate\<close> runs
  \<^verbatim>\<open>newClientDirect\<close>, which returns a client or an error. If it returns the error
  \<open>e\<close>, \<^verbatim>\<open>GetOrCreate\<close> returns the error
  \<^verbatim>\<open>failed to create pooled connection: <e>\<close> that wraps \<open>e\<close>, and the pool is as
  before: no client, no configuration, counter 0. If it returns a client, the pool
  stores the client and the requested configuration with counter 1, and that client is
  returned. In both cases the trace is the one the factory left.
\<close>

theorem GetOrCreate_on_empty_pool:
  assumes "client p = None" and "config p = None" and "refs p = 0"
  shows "(\<forall>c w'. newClientDirect T cfg w = (Ok c, w')
             \<longrightarrow> GetOrCreate T p cfg w
                 = (Ok c, \<lparr>client = Some c, config = Some cfg, refs = 1\<rparr>, w'))
       \<and> (\<forall>e w'. newClientDirect T cfg w = (Err e, w')
             \<longrightarrow> GetOrCreate T p cfg w
                 = (Err (GoError (''failed to create pooled connection: '' @ Error_msg e) (Some e)),
                    \<lparr>client = None, config = None, refs = 0\<rparr>, w'))
       \<and> (\<forall>s. fst (newClientDirect T cfg w) \<noteq> Panic s)"
proof (intro conjI allI impI)
  fix c w' assume "newClientDirect T cfg w = (Ok c, w')"
  with assms show "GetOrCreate T p cfg w = (Ok c, \<lparr>client = Some c, config = Some cfg, refs = 1\<rparr>, w')"
    by (cases p) (simp add: GetOrCreate_empty_Ok)
next
  fix e w' assume "newClientDirect T cfg w = (Err e, w')"
  with assms show "GetOrCreate T p cfg w
       = (Err (GoError (''failed to create pooled connection: '' @ Error_msg e) (Some e)),
          \<lparr>client = None, config = None, refs = 0\<rparr>, w')"
    by (cases p) (simp add: GetOrCreate_empty_Err)
next
  fix s show "fst (newClientDirect T cfg w) \<noteq> Panic s"
    by (rule newClientDirect_no_panic)
qed

lemma newClientDirect_stub_env_6:
  "newClientDirect (stub_env 6 v) example_config [] =
     (Err (GoError ''failed to connect to Uptime Kuma after 6 attempts: login: Too frequently''
                   (Some (GoError ''login: Too frequently'' None))),
      [EvConnect ''http://x'' ''a'' ''b'', EvRand, EvSleep 5000000000,
       EvConnect ''http://x'' ''a'' ''b'', EvRand, EvSleep 10000000000,
       EvConnect ''http://x'' ''a'' ''b'', EvRand, EvSleep 20000000000,
       EvConnect ''http://x'' ''a'' ''b'', EvRand, EvSleep 30000000000,
       EvConnect ''http://x'' ''a'' ''b'', EvRand, EvSleep 30000000000,
       EvConnect ''http://x'' ''a'' ''b''])"
proof -
  have h1: "\<forall>j<5. snd (kuma_New (stub_env 6 v)
                  (connect_calls [] @ replicate j (BaseURL example_config, Username example_config,
                                                  Password example_config))
                  (BaseURL example_config) (Username example_config) (Password example_config))
              \<noteq> None"
    by (simp add: stub_env_def)
  have h2: "kuma_New (stub_env 6 v)
        (connect_calls [] @ replicate 5 (BaseURL example_config, Username example_config,
                                        Password example_config))
        (BaseURL example_config) (Username example_config) (Password example_config)
      = (None, Some (GoError ''login: Too frequently'' None))"
    by (simp add: stub_env_def)
  have up: "[0..<5] = [0, 1, 2, 3, 4]"
    by (simp add: eval_nat_numeral)
  have r: "rand_Float64 (stub_env 6 v) = (\<lambda>n. 1 / 2)"
    by (simp add: stub_env_def)
  have i: "itoa 6 = ''6''"
    by (simp add: itoa.simps digit_char_def)
  have s: "sleepDuration T (5 * Second) 0 (1 / 2) = 5000000000"
    "sleepDuration T (5 * Second) (Suc 0) (1 / 2) = 10000000000"
    "sleepDuration T (5 * Second) 2 (1 / 2) = 20000000000"
    "sleepDuration T (5 * Second) 3 (1 / 2) = 30000000000"
    "sleepDuration T (5 * Second) 4 (1 / 2) = 30000000000" for T
    using sleepDuration_half [of 0 T] sleepDuration_half [of 1 T] sleepDuration_half [of 2 T]
      sleepDuration_half [of 3 T] sleepDuration_half [of 4 T]
    by (simp_all add: Second_def)
  show ?thesis
    unfolding newClientDirect_def newClientDirect_with_exhausted [OF h1 h2]
      retry_events_def up r exhausted_def
    by (simp add: s i fmt_error_def example_config_def)
qed

theorem GetOrCreate_on_empty_pool_witness:
  "GetOrCreate (stub_env 0 []) new_Pool example_config [] =
     (Ok \<lparr>Kuma = Some 0\<rparr>,
      \<lparr>client = Some \<lparr>Kuma = Some 0\<rparr>, config = Some example_config, refs = 1\<rparr>,
      [EvConnect ''http://x'' ''a'' ''b''])
   \<and> fst (GetOrCreate (stub_env 6 []) new_Pool example_config []) =
       Err (GoError ''failed to create pooled connection: failed to connect to Uptime Kuma after 6 attempts: login: Too frequently''
              (Some (GoError ''failed to connect to Uptime Kuma after 6 attempts: login: Too frequently''
                       (Some (GoError ''login: Too frequently'' None)))))
   \<and> fst (snd (GetOrCreate (stub_env 6 []) new_Pool example_config [])) =
       \<lparr>client = None, config = None, refs = 0\<rparr>
   \<and> connect_calls (snd (snd (GetOrCreate (stub_env 6 []) new_Pool example_config []))) =
       replicate 6 (''http://x'', ''a'', ''b'')"
proof -
  have e: "client new_Pool = None" "config new_Pool = None" "refs new_Pool = 0"
    by (simp_all add: new_Pool_def)
  from GetOrCreate_on_empty_pool [OF e, of "stub_env 0 []" example_config "[]"]
  have "GetOrCreate (stub_env 0 []) new_Pool example_config [] =
     (Ok \<lparr>Kuma = Some 0\<rparr>,
      \<lparr>client = Some \<lparr>Kuma = Some 0\<rparr>, config = Some example_config, refs = 1\<rparr>,
      [EvConnect ''http://x'' ''a'' ''b''])"
    by (simp add: newClientDirect_stub_env_0) (simp add: example_config_def)
  moreover
  from GetOrCreate_on_empty_pool [OF e, of "stub_env 6 []" example_config "[]"]
  have "GetOrCreate (stub_env 6 []) new_Pool example_config [] =
     (Err (GoError ''failed to create pooled connection: failed to connect to Uptime Kuma after 6 attempts: login: Too frequently''
              (Some (GoError ''failed to connect to Uptime Kuma after 6 attempts: login: Too frequently''
                       (Some (GoError ''login: Too frequently'' None))))),
      \<lparr>client = None, config = None, refs = 0\<rparr>,
      [EvConnect ''http://x'' ''a'' ''b'', EvRand, EvSleep 5000000000,
       EvConnect ''http://x'' ''a'' ''b'', EvRand, EvSleep 10000000000,
       EvConnect ''http://x'' ''a'' ''b'', EvRand, EvSleep 20000000000,
       EvConnect ''http://x'' ''a'' ''b'', EvRand, EvSleep 30000000000,
       EvConnect ''http://x'' ''a'' ''b'', EvRand, EvSleep 30000000000,
       EvConnect ''http://x'' ''a'' ''b''])"
    by (simp add: newClientDirect_stub_env_6)
  ultimately show ?thesis
    by (simp add: eval_nat_numeral)
qed

subsection \<open>Releasing and closing\<close>

text \<open>
  Claim C7, amended. Let \<open>p\<close> be the pool after any sequence \<open>ops\<close> of calls of
  \<^verbatim>\<open>GetOrCreate\<close>, \<^verbatim>\<open>Release\<close> and \<^verbatim>\<open>Close\<close> on a new pool. \<^verbatim>\<open>Release\<close>
  takes one from the counter when it is positive and does nothing otherwise, so it never
  makes a counter negative that was not. It leaves the client and the configuration of
  the pool as they are and calls nothing: the trace is unchanged, so the connection has
  not been closed. As long as fewer than \<open>2 ^ 63\<close> calls led to \<open>p\<close>, its counter is not
  negative, before and after \<^verbatim>\<open>Release\<close>.
\<close>

theorem Release_keeps_refs_nonnegative:
  "let p = fst (pool_run T ops (new_Pool, w0));
       p' = fst (Release p w)
   in (0 < sint (refs p) \<longrightarrow> sint (refs p') = sint (refs p) - 1)
    \<and> (sint (refs p) \<le> 0 \<longrightarrow> p' = p)
    \<and> (0 \<le> sint (refs p) \<longrightarrow> 0 \<le> sint (refs p'))
    \<and> (int (length ops) < 2 ^ 63 \<longrightarrow> 0 \<le> sint (refs p) \<and> 0 \<le> sint (refs p'))
    \<and> client p' = client p
    \<and> config p' = config p
    \<and> snd (Release p w) = w"
proof -
  have "0 \<le> sint (refs (fst (pool_run T ops (new_Pool, w0))))" if "int (length ops) < 2 ^ 63"
    using that by (rule pool_run_new_Pool_refs)
  then show ?thesis
    using sint_refs_dec [of "refs (fst (pool_run T ops (new_Pool, w0)))"]
    by (auto simp: Let_def Release_def)
qed

lemma pool_run_two_acquires:
  "pool_run (stub_env 0 []) [OpGetOrCreate example_config, OpGetOrCreate example_config]
     (new_Pool, []) =
   (\<lparr>client = Some \<lparr>Kuma = Some 0\<rparr>, config = Some example_config, refs = 2\<rparr>,
    [EvConnect ''http://x'' ''a'' ''b''])"
  by (simp add: GetOrCreate_def newClientDirect_stub_env_0 configMatches_def new_Pool_def)
     (simp add: example_config_def)

theorem Release_keeps_refs_nonnegative_witness:
  "fst (pool_run (stub_env 0 [])
          [OpGetOrCreate example_config, OpGetOrCreate example_config] (new_Pool, []))
     = \<lparr>client = Some \<lparr>Kuma = Some 0\<rparr>, config = Some example_config, refs = 2\<rparr>
   \<and> sint (refs (fst (Release (fst (pool_run (stub_env 0 [])
          [OpGetOrCreate example_config, OpGetOrCreate example_config] (new_Pool, [])))
          [EvConnect ''http://x'' ''a'' ''b'']))) = 1
   \<and> snd (Release (fst (pool_run (stub_env 0 [])
          [OpGetOrCreate example_config, OpGetOrCreate example_config] (new_Pool, [])))
          [EvConnect ''http://x'' ''a'' ''b'']) = [EvConnect ''http://x'' ''a'' ''b'']
   \<and> Release (fst (pool_run (stub_env 0 []) [] (new_Pool, []))) [] = (new_Pool, [])"
proof -
  from Release_keeps_refs_nonnegative
    [of "stub_env 0 []" "[OpGetOrCreate example_config, OpGetOrCreate example_config]" "[]"
        "[EvConnect ''http://x'' ''a'' ''b'']"]
  have "sint (refs (fst (Release (fst (pool_run (stub_env 0 [])
          [OpGetOrCreate example_config, OpGetOrCreate example_config] (new_Pool, [])))
          [EvConnect ''http://x'' ''a'' ''b'']))) = 1
     \<and> snd (Release (fst (pool_run (stub_env 0 [])
          [OpGetOrCreate example_config, OpGetOrCreate example_config] (new_Pool, [])))
          [EvConnect ''http://x'' ''a'' ''b'']) = [EvConnect ''http://x'' ''a'' ''b'']"
    unfolding pool_run_two_acquires Let_def by simp
  moreover
  from Release_keeps_refs_nonnegative [of "stub_env 0 []" "[]" "[]" "[]"]
  have "Release (fst (pool_run (stub_env 0 []) [] (new_Pool, []))) [] = (new_Pool, [])"
    by (simp add: Let_def new_Pool_def prod_eq_iff)
  moreover
  have "fst (pool_run (stub_env 0 [])
          [OpGetOrCreate example_config, OpGetOrCreate example_config] (new_Pool, []))
     = \<lparr>client = Some \<lparr>Kuma = Some 0\<rparr>, config = Some example_config, refs = 2\<rparr>"
    by (simp only: pool_run_two_acquires fst_conv)
  ultimately show ?thesis
    by blast
qed

text \<open>
  The claim as it stands fails after \<open>2 ^ 63\<close> calls of \<^verbatim>\<open>GetOrCreate\<close> with one
  configuration on a new pool: the first call connects, each later call adds one to the
  counter, and the counter of the pool they lead to is negative.
\<close>

theorem refs_negative_counterexample:
  "sint (refs (fst (pool_run (stub_env 0 [])
                      (replicate 9223372036854775808 (OpGetOrCreate example_config))
                      (new_Pool, [])))) < 0"
proof -
  have n: "(9223372036854775808::nat) = Suc 9223372036854775807" by simp
  have first: "pool_step (stub_env 0 []) (OpGetOrCreate example_config) (new_Pool, [])
        = (\<lparr>client = Some \<lparr>Kuma = Some 0\<rparr>, config = Some example_config, refs = 1\<rparr>,
           [EvConnect (BaseURL example_config) (Username example_config)
              (Password example_config)])"
    by (simp add: GetOrCreate_def newClientDirect_stub_env_0 new_Pool_def)
  have "pool_run (stub_env 0 [])
          (replicate 9223372036854775808 (OpGetOrCreate example_config)) (new_Pool, [])
        = pool_run (stub_env 0 [])
            (replicate 9223372036854775807 (OpGetOrCreate example_config))
            (\<lparr>client = Some \<lparr>Kuma = Some 0\<rparr>, config = Some example_config, refs = 1\<rparr>,
             [EvConnect (BaseURL example_config) (Username example_config)
                (Password example_config)])"
    unfolding n replicate_Suc pool_run.simps first ..
  also have "\<dots> = (\<lparr>client = Some \<lparr>Kuma = Some 0\<rparr>, config = Some example_config, refs = 1\<rparr>
                      \<lparr>refs := refs \<lparr>client = Some \<lparr>Kuma = Some 0\<rparr>,
                                       config = Some example_config, refs = 1\<rparr>
                                + of_nat 9223372036854775807\<rparr>,
                    [EvConnect (BaseURL example_config) (Username example_config)
                       (Password example_config)])"
    by (rule pool_run_acquire_held) simp_all
  finally show ?thesis by simp
qed

text \<open>
  Claim C6. On a pool that holds no client \<^verbatim>\<open>Close\<close> returns nil and changes
  nothing. On a pool that holds the client \<open>c\<close>, whatever the counter is, \<^verbatim>\<open>Close\<close>
  calls \<^verbatim>\<open>c.Disconnect()\<close> once, returns what that call returned, and leaves the
  pool with no client, no configuration and counter 0. When \<open>c\<close> carries the handle
  \<open>k\<close>, as every client does that \<^verbatim>\<open>newClientDirect\<close> built from a non-nil answer
  of \<^verbatim>\<open>kuma.New\<close>, that is exactly one call of \<^verbatim>\<open>k.Disconnect()\<close>, the one new
  event of the trace. A \<^verbatim>\<open>GetOrCreate\<close> after the \<^verbatim>\<open>Close\<close>, with any
  configuration, runs \<^verbatim>\<open>newClientDirect\<close>, which starts with a new call of
  \<^verbatim>\<open>kuma.New\<close>.
\<close>

theorem Close_resets_the_pool:
  "(client p = None \<longrightarrow> Close T p w = (None, p, w))
   \<and> (\<forall>c. client p = Some c \<longrightarrow>
         Close T p w = (fst (Disconnect T c w), \<lparr>client = None, config = None, refs = 0\<rparr>,
                        snd (Disconnect T c w))
         \<and> (\<forall>k. Kuma c = Some k \<longrightarrow>
               Close T p w = (kuma_Disconnect T w k, \<lparr>client = None, config = None, refs = 0\<rparr>,
                              w @ [EvDisconnect k])
               \<and> disconnect_calls (snd (snd (Close T p w))) = disconnect_calls w @ [k])
         \<and> (\<forall>T2 cfg w2. \<exists>t.
               snd (snd (GetOrCreate T2 (fst (snd (Close T p w))) cfg w2))
                 = snd (newClientDirect T2 cfg w2)
               \<and> snd (newClientDirect T2 cfg w2)
                 = w2 @ EvConnect (BaseURL cfg) (Username cfg) (Password cfg) # t))"
proof (intro conjI allI impI)
  assume "client p = None"
  then show "Close T p w = (None, p, w)"
    by (simp add: Close_def)
next
  fix c assume h: "client p = Some c"
  then show c: "Close T p w = (fst (Disconnect T c w), \<lparr>client = None, config = None, refs = 0\<rparr>,
                        snd (Disconnect T c w))"
    by (cases p) (simp add: Close_def split: prod.splits)
  {
    fix k assume k: "Kuma c = Some k"
    then show k': "Close T p w = (kuma_Disconnect T w k, \<lparr>client = None, config = None, refs = 0\<rparr>,
                              w @ [EvDisconnect k])"
      by (simp add: c Disconnect_def)
    show "disconnect_calls (snd (snd (Close T p w))) = disconnect_calls w @ [k]"
      by (simp add: k' disconnect_calls_append)
  }
  fix T2 cfg w2
  obtain t where t: "snd (newClientDirect T2 cfg w2)
                 = w2 @ EvConnect (BaseURL cfg) (Username cfg) (Password cfg) # t"
    using newClientDirect_first_connect by blast
  have "snd (snd (GetOrCreate T2 \<lparr>client = None, config = None, refs = 0\<rparr> cfg w2))
          = snd (newClientDirect T2 cfg w2)"
    by (cases rule: newClientDirect_cases [of T2 cfg w2])
       (simp_all add: GetOrCreate_empty_Ok GetOrCreate_empty_Err)
  with t show "\<exists>t. snd (snd (GetOrCreate T2 (fst (snd (Close T p w))) cfg w2))
                 = snd (newClientDirect T2 cfg w2)
               \<and> snd (newClientDirect T2 cfg w2)
                 = w2 @ EvConnect (BaseURL cfg) (Username cfg) (Password cfg) # t"
    by (simp add: c)
qed

theorem Close_resets_the_pool_witness:
  "Close (stub_env 0 []) new_Pool [] = (None, new_Pool, [])
   \<and> Close (stub_env 0 [])
        \<lparr>client = Some \<lparr>Kuma = Some 0\<rparr>, config = Some example_config, refs = 2\<rparr>
        [EvConnect ''http://x'' ''a'' ''b'']
      = (None, \<lparr>client = None, config = None, refs = 0\<rparr>,
         [EvConnect ''http://x'' ''a'' ''b'', EvDisconnect 0])
   \<and> GetOrCreate (stub_env 0 []) \<lparr>client = None, config = None, refs = 0\<rparr> example_config
        [EvConnect ''http://x'' ''a'' ''b'', EvDisconnect 0]
      = (Ok \<lparr>Kuma = Some 1\<rparr>,
         \<lparr>client = Some \<lparr>Kuma = Some 1\<rparr>, config = Some example_config, refs = 1\<rparr>,
         [EvConnect ''http://x'' ''a'' ''b'', EvDisconnect 0, EvConnect ''http://x'' ''a'' ''b''])"
proof -
  from Close_resets_the_pool [of new_Pool "stub_env 0 []" "[]"]
  have a: "Close (stub_env 0 []) new_Pool [] = (None, new_Pool, [])"
    by (simp add: new_Pool_def)
  have h: "client \<lparr>client = Some \<lparr>Kuma = Some 0\<rparr>, config = Some example_config, refs = 2\<rparr>
             = Some \<lparr>Kuma = Some 0\<rparr>"
    "Kuma \<lparr>Kuma = Some 0\<rparr> = Some 0"
    by simp_all
  from Close_resets_the_pool
    [THEN conjunct2, rule_format, THEN conjunct2, THEN conjunct1, rule_format, THEN conjunct1,
     OF h, of "stub_env 0 []" "[EvConnect ''http://x'' ''a'' ''b'']"]
  have b: "Close (stub_env 0 [])
        \<lparr>client = Some \<lparr>Kuma = Some 0\<rparr>, config = Some example_config, refs = 2\<rparr>
        [EvConnect ''http://x'' ''a'' ''b'']
      = (None, \<lparr>client = None, config = None, refs = 0\<rparr>,
         [EvConnect ''http://x'' ''a'' ''b'', EvDisconnect 0])"
    by (simp add: stub_env_def)
  have c: "GetOrCreate (stub_env 0 []) \<lparr>client = None, config = None, refs = 0\<rparr> example_config
        [EvConnect ''http://x'' ''a'' ''b'', EvDisconnect 0]
      = (Ok \<lparr>Kuma = Some 1\<rparr>,
         \<lparr>client = Some \<lparr>Kuma = Some 1\<rparr>, config = Some example_config, refs = 1\<rparr>,
         [EvConnect ''http://x'' ''a'' ''b'', EvDisconnect 0, EvConnect ''http://x'' ''a'' ''b''])"
    by (simp add: GetOrCreate_def newClientDirect_stub_env_0) (simp add: example_config_def)
  from a b c show ?thesis by simp
qed

lemma Close_without_handle:
  assumes "client p = Some c" and "Kuma c = None"
  shows "Close T p w = (None, \<lparr>client = None, config = None, refs = 0\<rparr>, w)"
  using assms by (cases p) (simp add: Close_def Disconnect_def)

subsection \<open>The entry point\<close>

text \<open>
  Claim C5. With an empty \<^verbatim>\<open>BaseURL\<close>, \<^verbatim>\<open>New\<close> returns the error
  \<^verbatim>\<open>base URL is required\<close> at once: the trace is unchanged (no call of
  \<^verbatim>\<open>kuma.New\<close>, no sleep) and so is the global pool, whatever the pooling flag and
  the environment variable are.
\<close>

theorem New_empty_BaseURL:
  assumes "BaseURL cfg = []"
  shows "New T cfg g w = (Err (GoError ''base URL is required'' None), g, w)
         \<and> connect_calls (snd (snd (New T cfg g w))) = connect_calls w
         \<and> sleeps (snd (snd (New T cfg g w))) = sleeps w"
  using assms by (simp add: New_def)

theorem New_empty_BaseURL_witness:
  "New (stub_env 0 ''true'') (example_config\<lparr>BaseURL := [], EnableConnectionPool := True\<rparr>) None []
     = (Err (GoError ''base URL is required'' None), None, [])
   \<and> New (stub_env 0 []) (example_config\<lparr>BaseURL := []\<rparr>) None []
     = (Err (GoError ''base URL is required'' None), None, [])"
  using New_empty_BaseURL
          [of "example_config\<lparr>BaseURL := [], EnableConnectionPool := True\<rparr>"
              "stub_env 0 ''true''" None "[]"]
        New_empty_BaseURL [of "example_config\<lparr>BaseURL := []\<rparr>" "stub_env 0 []" None "[]"]
  by simp

text \<open>
  Claim C9. \<^verbatim>\<open>New\<close> first rejects an empty \<^verbatim>\<open>BaseURL\<close>. Otherwise it goes
  through the global pool when the flag \<^verbatim>\<open>EnableConnectionPool\<close> is set or the
  environment variable \<^verbatim>\<open>UPTIMEKUMA_ENABLE_CONNECTION_POOL\<close> is exactly
  \<^verbatim>\<open>true\<close>, and it connects directly, leaving the global pool alone, in every other
  case. So with the flag set the value of the variable does not matter, and with the
  flag clear the values \<^verbatim>\<open>TRUE\<close> and \<^verbatim>\<open>1\<close> give a direct connection.
\<close>

theorem New_pooling_decision:
  "New T cfg g w =
     (if BaseURL cfg = [] then (Err (GoError ''base URL is required'' None), g, w)
      else if EnableConnectionPool cfg
              \<or> Getenv T ''UPTIMEKUMA_ENABLE_CONNECTION_POOL'' = ''true''
      then (case GetOrCreate T (GetGlobalPool g) cfg w of (r, p', w') \<Rightarrow> (r, Some p', w'))
      else (case newClientDirect T cfg w of (r, w') \<Rightarrow> (r, g, w')))
   \<and> (BaseURL cfg \<noteq> [] \<and> EnableConnectionPool cfg
        \<longrightarrow> New T cfg g w = (case GetOrCreate T (GetGlobalPool g) cfg w of
                               (r, p', w') \<Rightarrow> (r, Some p', w')))
   \<and> (BaseURL cfg \<noteq> [] \<and> \<not> EnableConnectionPool cfg
        \<and> (Getenv T ''UPTIMEKUMA_ENABLE_CONNECTION_POOL'' = ''TRUE''
            \<or> Getenv T ''UPTIMEKUMA_ENABLE_CONNECTION_POOL'' = ''1'')
        \<longrightarrow> New T cfg g w = (case newClientDirect T cfg w of (r, w') \<Rightarrow> (r, g, w')))"
  by (auto simp: New_def Let_def)

lemma Getenv_stub_env: "Getenv (stub_env n v) ''UPTIMEKUMA_ENABLE_CONNECTION_POOL'' = v"
  by (simp add: stub_env_def)

theorem New_pooling_decision_witness:
  "New (stub_env 0 []) (example_config\<lparr>EnableConnectionPool := True\<rparr>) None [] =
     (Ok \<lparr>Kuma = Some 0\<rparr>,
      Some \<lparr>client = Some \<lparr>Kuma = Some 0\<rparr>,
            config = Some (example_config\<lparr>EnableConnectionPool := True\<rparr>), refs = 1\<rparr>,
      [EvConnect ''http://x'' ''a'' ''b''])
   \<and> New (stub_env 0 ''true'') example_config None [] =
     (Ok \<lparr>Kuma = Some 0\<rparr>,
      Some \<lparr>client = Some \<lparr>Kuma = Some 0\<rparr>, config = Some example_config, refs = 1\<rparr>,
      [EvConnect ''http://x'' ''a'' ''b''])
   \<and> New (stub_env 0 ''TRUE'') example_config None [] =
     (Ok \<lparr>Kuma = Some 0\<rparr>, None, [EvConnect ''http://x'' ''a'' ''b''])
   \<and> New (stub_env 0 ''1'') example_config None [] =
     (Ok \<lparr>Kuma = Some 0\<rparr>, None, [EvConnect ''http://x'' ''a'' ''b''])"
proof -
  have ne: "BaseURL example_config \<noteq> []"
    "BaseURL (example_config\<lparr>EnableConnectionPool := True\<rparr>) \<noteq> []"
    by (simp_all add: example_config_def)
  have g: "GetOrCreate (stub_env 0 v) (GetGlobalPool None) cfg [] =
           (Ok \<lparr>Kuma = Some 0\<rparr>,
            \<lparr>client = Some \<lparr>Kuma = Some 0\<rparr>, config = Some cfg, refs = 1\<rparr>,
            [EvConnect (BaseURL cfg) (Username cfg) (Password cfg)])" for v cfg
    by (simp add: GetOrCreate_def GetGlobalPool_def new_Pool_def newClientDirect_stub_env_0)
  from New_pooling_decision [of "stub_env 0 []" "example_config\<lparr>EnableConnectionPool := True\<rparr>" None "[]"] ne
  have a: "New (stub_env 0 []) (example_config\<lparr>EnableConnectionPool := True\<rparr>) None [] =
     (Ok \<lparr>Kuma = Some 0\<rparr>,
      Some \<lparr>client = Some \<lparr>Kuma = Some 0\<rparr>,
            config = Some (example_config\<lparr>EnableConnectionPool := True\<rparr>), refs = 1\<rparr>,
      [EvConnect ''http://x'' ''a'' ''b''])"
    by (simp add: g) (simp add: example_config_def)
  from New_pooling_decision [of "stub_env 0 ''true''" example_config None "[]"] ne
  have b: "New (stub_env 0 ''true'') example_config None [] =
     (Ok \<lparr>Kuma = Some 0\<rparr>,
      Some \<lparr>client = Some \<lparr>Kuma = Some 0\<rparr>, config = Some example_config, refs = 1\<rparr>,
      [EvConnect ''http://x'' ''a'' ''b''])"
    by (simp add: g Getenv_stub_env) (simp add: example_config_def)
  from New_pooling_decision [of "stub_env 0 ''TRUE''" example_config None "[]"] ne
  have c: "New (stub_env 0 ''TRUE'') example_config None [] =
     (Ok \<lparr>Kuma = Some 0\<rparr>, None, [EvConnect ''http://x'' ''a'' ''b''])"
    by (simp add: newClientDirect_stub_env_0 Getenv_stub_env) (simp add: example_config_def)
  from New_pooling_decision [of "stub_env 0 ''1''" example_config None "[]"] ne
  have d: "New (stub_env 0 ''1'') example_config None [] =
     (Ok \<lparr>Kuma = Some 0\<rparr>, None, [EvConnect ''http://x'' ''a'' ''b''])"
    by (simp add: newClientDirect_stub_env_0 Getenv_stub_env) (simp add: example_config_def)
  from a b c d show ?thesis by simp
qed

subsection \<open>Disconnecting\<close>

text \<open>
  Claim C10. \<^verbatim>\<open>Disconnect\<close> on a \<^verbatim>\<open>Client\<close> whose \<^verbatim>\<open>Kuma\<close> is nil returns nil
  and calls nothing (the trace is unchanged); on a \<^verbatim>\<open>Client\<close> with the handle \<open>k\<close>
  it calls \<^verbatim>\<open>k.Disconnect()\<close> once and returns what that call returned. These are
  all the cases, so \<^verbatim>\<open>Disconnect\<close> returns on every \<^verbatim>\<open>Client\<close> value.
\<close>

theorem Disconnect_is_safe:
  "(Kuma c = None \<longrightarrow> Disconnect T c w = (None, w))
   \<and> (\<forall>k. Kuma c = Some k \<longrightarrow>
           Disconnect T c w = (kuma_Disconnect T w k, w @ [EvDisconnect k]))
   \<and> (\<exists>err w'. Disconnect T c w = (err, w'))"
  by (simp add: Disconnect_def)

theorem Disconnect_is_safe_witness:
  "Disconnect (stub_env 0 []) \<lparr>Kuma = None\<rparr> [] = (None, [])
   \<and> Disconnect (stub_env 0 []) \<lparr>Kuma = Some 0\<rparr> [EvConnect ''http://x'' ''a'' ''b'']
       = (None, [EvConnect ''http://x'' ''a'' ''b'', EvDisconnect 0])"
  using Disconnect_is_safe [of "\<lparr>Kuma = None\<rparr>" "stub_env 0 []" "[]"]
        Disconnect_is_safe [of "\<lparr>Kuma = Some 0\<rparr>" "stub_env 0 []"
                               "[EvConnect ''http://x'' ''a'' ''b'']"]
  by (simp add: stub_env_def)

end
